theory Spec2Isabelle
  imports Complex_Main
begin

section \<open>The REST transport (rest.go)\<close>

text \<open>
  Go's \<^verbatim>\<open>time.Time\<close> and \<^verbatim>\<open>time.Duration\<close> are counted in nanoseconds, as
  integers. The zero \<^verbatim>\<open>time.Time{}\<close> of \<^verbatim>\<open>lockedTo\<close> is \<open>None\<close>.
  The \<^verbatim>\<open>sync.RWMutex\<close> is its number of read locks held and whether the write lock
  is held. The clock of the model moves only when the code sleeps.
\<close>

record Rest =
  mu_readers :: nat
  mu_writer :: bool
  token :: string
  lockedTo :: "int option"
  now :: int
  slept :: "int list"
  calls :: nat

text \<open>What \<^verbatim>\<open>rest.httpClient.Do\<close> and \<^verbatim>\<open>io.ReadAll(res.Body)\<close> give for one call:
  the status code, the status line, the body (\<open>Inl\<close> the error when reading it fails) and the
  \<^verbatim>\<open>retry_after\<close> number the body decodes to (a \<^verbatim>\<open>float32\<close>, which is a
  rational number).\<close>

record http_Response =
  StatusCode :: nat
  Status :: string
  Body :: "string + string"
  RetryAfter :: rat

datatype http_reply = DoError string | DoResponse http_Response

text \<open>The environment of a transport: the reply of the server to the n-th call made
  (counted from 0), the error of \<^verbatim>\<open>http.NewRequest\<close> for a method and a route, if
  any, and the sum of two \<^verbatim>\<open>float32\<close> numbers as the machine rounds it.\<close>

record transport =
  httpClient :: "nat \<Rightarrow> http_reply"
  NewRequest :: "string \<Rightarrow> string \<Rightarrow> string option"
  float32_plus :: "rat \<Rightarrow> rat \<Rightarrow> rat"

text \<open>The \<^verbatim>\<open>jsonPayload\<close> argument: \<^verbatim>\<open>nil\<close>, or a value with what
  \<^verbatim>\<open>sonnet.Marshal\<close> makes of it (\<open>None\<close> when it cannot be serialised).\<close>

datatype payload = NilPayload | JsonPayload "string option"

text \<open>A call either returns a value in a state, or never returns: it waits for a lock
  that nobody releases.\<close>

datatype 'a outcome = Returns 'a Rest | BlocksForever Rest

definition second :: int where
  "second = 1000000000"

definition microsecond :: int where
  "microsecond = 1000"

definition RLock :: "Rest \<Rightarrow> Rest option" where
  "RLock s = (if mu_writer s then None else Some (s\<lparr>mu_readers := mu_readers s + 1\<rparr>))"

definition RUnlock :: "Rest \<Rightarrow> Rest" where
  "RUnlock s = s\<lparr>mu_readers := mu_readers s - 1\<rparr>"

definition Lock :: "Rest \<Rightarrow> Rest option" where
  "Lock s = (if mu_writer s \<or> 0 < mu_readers s then None else Some (s\<lparr>mu_writer := True\<rparr>))"

definition Unlock :: "Rest \<Rightarrow> Rest" where
  "Unlock s = s\<lparr>mu_writer := False\<rparr>"

definition Sleep :: "int \<Rightarrow> Rest \<Rightarrow> Rest" where
  "Sleep d s = s\<lparr>now := now s + max d 0, slept := slept s @ [d]\<rparr>"

definition Until :: "int \<Rightarrow> Rest \<Rightarrow> int" where
  "Until t s = t - now s"

text \<open>Go's conversion of a floating-point number to an integer drops the fraction.\<close>

definition trunc :: "rat \<Rightarrow> int" where
  "trunc x = (if 0 \<le> x then \<lfloor>x\<rfloor> else \<lceil>x\<rceil>)"

type_synonym result = "string option \<times> string option \<times> bool"

text \<open>The branch of \<^verbatim>\<open>handleRequest\<close> for status 429 (rest.go, lines 99 to 113).\<close>

definition rateLimited :: "transport \<Rightarrow> http_Response \<Rightarrow> Rest \<Rightarrow> result outcome" where
  "rateLimited t res s =
     (case Lock s of
        None \<Rightarrow> BlocksForever s
      | Some s1 \<Rightarrow>
          (let timeLeft = now s1 + second * trunc (float32_plus t (RetryAfter res) 5);
               s2 = Unlock (s1\<lparr>lockedTo := Some timeLeft\<rparr>);
               s3 = Sleep (Until timeLeft s2) s2
           in case Lock s3 of
                None \<Rightarrow> BlocksForever s3
              | Some s4 \<Rightarrow>
                  Returns (None, Some ''rate limit'', False)
                    (Unlock (s4\<lparr>lockedTo := None\<rparr>))))"

text \<open>What \<^verbatim>\<open>handleRequest\<close> does once the request is built: the call and the
  classification of the reply (rest.go, lines 85 to 118).\<close>

definition doRequest :: "transport \<Rightarrow> Rest \<Rightarrow> result outcome" where
  "doRequest t s =
     (let s' = s\<lparr>calls := calls s + 1\<rparr> in
      case httpClient t (calls s) of
        DoError e \<Rightarrow> Returns (None, Some (''failed to process request: '' @ e), False) s'
      | DoResponse res \<Rightarrow>
          if StatusCode res = 204 then Returns (None, None, True) s'
          else (case Body res of
                  Inl e \<Rightarrow>
                    Returns (None, Some (''failed to parse response body (json): '' @ e), True) s'
                | Inr body \<Rightarrow>
                    if StatusCode res = 429 then rateLimited t res s'
                    else if 400 \<le> StatusCode res
                    then Returns (None, Some (Status res @ '' :: '' @ body), True) s'
                    else Returns (Some body, None, True) s'))"

definition handleRequest_rest ::
  "transport \<Rightarrow> string \<Rightarrow> string \<Rightarrow> payload \<Rightarrow> Rest \<Rightarrow> result outcome" where
  "handleRequest_rest t method route jsonPayload s =
     (case jsonPayload of
        NilPayload \<Rightarrow>
          (case NewRequest t method route of
             Some e \<Rightarrow> Returns (None, Some (''failed to initialize new request: '' @ e), False) s
           | None \<Rightarrow> doRequest t s)
      | JsonPayload marshalled \<Rightarrow>
          (case marshalled of
             None \<Rightarrow>
               Returns (None,
                 Some ''failed to parse provided payload (make sure it's in JSON format)'', True) s
           | Some body \<Rightarrow>
               (case NewRequest t method route of
                  Some e \<Rightarrow>
                    Returns (None, Some (''failed to initialize new request: '' @ e), False) s
                | None \<Rightarrow> doRequest t s)))"

text \<open>The loop of \<^verbatim>\<open>Request\<close>: \<^verbatim>\<open>for i := 1; i < 3; i++\<close>.\<close>

function Request_loop ::
  "transport \<Rightarrow> string \<Rightarrow> string \<Rightarrow> payload \<Rightarrow> nat \<Rightarrow> Rest \<Rightarrow> (string option \<times> string option) outcome"
  where
  "Request_loop t method route jsonPayload i s =
     (if i < 3 then
        (case handleRequest_rest t method route jsonPayload s of
           BlocksForever s' \<Rightarrow> BlocksForever s'
         | Returns (raw, err, finished) s' \<Rightarrow>
             if finished then Returns (raw, err) s'
             else Request_loop t method route jsonPayload (i + 1)
                    (Sleep (microsecond * (250 * int i)) s'))
      else Returns (None,
             Some (''failed to make http request 3 times to '' @ method @ '' :: '' @ route @
                   '' (check internet connection and/or app credentials)'')) s)"
  by pat_completeness auto
termination
  by (relation "measure (\<lambda>(t, method, route, jsonPayload, i, s). 3 - i)") auto

definition Request ::
  "transport \<Rightarrow> string \<Rightarrow> string \<Rightarrow> payload \<Rightarrow> Rest \<Rightarrow> (string option \<times> string option) outcome"
  where
  "Request t method route jsonPayload s =
     (case RLock s of
        None \<Rightarrow> BlocksForever s
      | Some s1 \<Rightarrow>
          (case lockedTo s1 of
             None \<Rightarrow> Request_loop t method route jsonPayload 1 s1
           | Some deadline \<Rightarrow>
               (let timeLeft = Until deadline s1;
                    s2 = RUnlock s1;
                    s3 = (if 0 < timeLeft then Sleep timeLeft s2 else s2)
                in Request_loop t method route jsonPayload 1 s3)))"

text \<open>\<^verbatim>\<open>NewCustomRest\<close>: the token must start with \<^verbatim>\<open>"Bot "\<close>; the mutex and the
  deadline start at their zero values. The clock starts at the time given.\<close>

definition NewCustomRest :: "string \<Rightarrow> int \<Rightarrow> Rest option" where
  "NewCustomRest tok t0 =
     (if take 4 tok = ''Bot '' then
        Some \<lparr>mu_readers = 0, mu_writer = False, token = tok, lockedTo = None,
              now = t0, slept = [], calls = 0\<rparr>
      else None)"


section \<open>Inbound events and the calls a handler makes\<close>

type_synonym Snowflake = nat

text \<open>The kinds of interaction, of component and of option the router tells apart. The
  constants are declared outside the sources at hand; \<open>OTHER\<close> stands for every other
  value.\<close>

datatype InteractionType =
    PING_INTERACTION_TYPE
  | APPLICATION_COMMAND_INTERACTION_TYPE
  | MESSAGE_COMPONENT_INTERACTION_TYPE
  | APPLICATION_COMMAND_AUTO_COMPLETE_INTERACTION_TYPE
  | MODAL_SUBMIT_INTERACTION_TYPE
  | OTHER_INTERACTION_TYPE

datatype ComponentType = COMPONENT_BUTTON | OTHER_COMPONENT

datatype OptionType = OPTION_SUB_COMMAND | OTHER_OPTION

datatype CommandOption =
  CommandOption (OptionType: OptionType) (OptionName: string) (SubOptions: "CommandOption list")

record InteractionData =
  Name :: string
  Options :: "CommandOption list"
  CustomId :: string
  ComponentType :: ComponentType

text \<open>One record stands for \<^verbatim>\<open>Interaction\<close>, \<^verbatim>\<open>CommandInteraction\<close>,
  \<^verbatim>\<open>ButtonInteraction\<close>, \<^verbatim>\<open>ComponentInteraction\<close> and \<^verbatim>\<open>ModalInteraction\<close>:
  the router reads these fields only.\<close>

record Interaction =
  Type :: InteractionType
  GuildID :: Snowflake
  Data :: InteractionData

text \<open>A function value supplied by the user is known by a name; a call of it is an
  event of the trace. Where the router uses what the function returns, the function value
  carries that too.\<close>

type_synonym handler = string

datatype role =
    PreCommand | Middleware | SlashCommand | AutoComplete | Generic | Queued
  | Permanent | Fallback

datatype arg = NilArg | ItxArg Interaction

datatype event =
    VerifyRequest
  | ReadAll
  | Decode
  | Header string string
  | WriteHeader nat
  | Write string
  | Invoke role handler arg
  | Send string Interaction
  | BodyClose

datatype ending = Returned | Panicked string

type_synonym run = "event list \<times> ending"

definition before :: "event list \<Rightarrow> run \<Rightarrow> run" where
  "before es r = (es @ fst r, snd r)"

text \<open>\<^verbatim>\<open>http.Error\<close> of the standard library: two headers, the status, the message and a
  newline.\<close>

definition http_Error :: "string \<Rightarrow> nat \<Rightarrow> event list" where
  "http_Error msg code =
     [Header ''Content-Type'' ''text/plain; charset=utf-8'',
      Header ''X-Content-Type-Options'' ''nosniff'',
      WriteHeader code,
      Write (msg @ [CHR 0x0A])]"

text \<open>What \<^verbatim>\<open>net/http\<close> makes of the calls on a \<^verbatim>\<open>ResponseWriter\<close>: the first
  \<^verbatim>\<open>WriteHeader\<close> fixes the status and the headers, a later one is superfluous and
  ignored; a \<^verbatim>\<open>Write\<close> before any \<^verbatim>\<open>WriteHeader\<close> sets status 200; a status 204
  (like 304 and 1xx) takes no body. A handler that writes nothing answers 200 with an
  empty body.\<close>

record response =
  resp_status :: "nat option"
  resp_headers :: "(string \<times> string) list"
  resp_body :: string

definition bodyAllowedForStatus :: "nat \<Rightarrow> bool" where
  "bodyAllowedForStatus n = (if 100 \<le> n \<and> n \<le> 199 then False
                             else if n = 204 then False
                             else if n = 304 then False
                             else True)"

fun respond :: "response \<Rightarrow> event \<Rightarrow> response" where
  "respond r (Header k v) = (case resp_status r of None \<Rightarrow> r\<lparr>resp_headers := resp_headers r @ [(k, v)]\<rparr> | Some n \<Rightarrow> r)"
| "respond r (WriteHeader n) = (case resp_status r of None \<Rightarrow> r\<lparr>resp_status := Some n\<rparr> | Some m \<Rightarrow> r)"
| "respond r (Write bs) =
     (let n = (case resp_status r of None \<Rightarrow> 200 | Some m \<Rightarrow> m)
      in if bodyAllowedForStatus n then r\<lparr>resp_status := Some n, resp_body := resp_body r @ bs\<rparr>
         else r\<lparr>resp_status := Some n\<rparr>)"
| "respond r e = r"

definition sent :: "event list \<Rightarrow> response" where
  "sent es = foldl respond \<lparr>resp_status = None, resp_headers = [], resp_body = []\<rparr> es"

definition sent_status :: "event list \<Rightarrow> nat" where
  "sent_status es = (case resp_status (sent es) of None \<Rightarrow> 200 | Some n \<Rightarrow> n)"

definition sent_body :: "event list \<Rightarrow> string" where
  "sent_body es = resp_body (sent es)"

text \<open>The calls that start a response: \<^verbatim>\<open>WriteHeader\<close> and \<^verbatim>\<open>Write\<close>.\<close>

fun is_WriteHeader :: "event \<Rightarrow> bool" where
  "is_WriteHeader (WriteHeader n) = True"
| "is_WriteHeader e = False"

fun is_Invoke :: "event \<Rightarrow> bool" where
  "is_Invoke (Invoke r h a) = True"
| "is_Invoke e = False"

fun invoked_as :: "role \<Rightarrow> event \<Rightarrow> bool" where
  "invoked_as r (Invoke r' h a) = (r = r')"
| "invoked_as r e = False"

fun is_Write :: "event \<Rightarrow> bool" where
  "is_Write (Write bs) = True"
| "is_Write e = False"

text \<open>The calls on the writer that start or continue a response.\<close>

definition writes :: "event list \<Rightarrow> event list" where
  "writes es = filter (\<lambda>e. is_WriteHeader e \<or> is_Write e) es"

text \<open>What the peer is sent for a run of a handler. When the handler returns, the
  status and the body its calls make. When the handler panics, \<^verbatim>\<open>net/http\<close> recovers
  the panic and closes the connection (or resets the stream): what the handler wrote is
  still in the buffer, and no response is sent.\<close>

definition reply :: "run \<Rightarrow> (nat \<times> string) option" where
  "reply r =
     (case snd r of
        Returned \<Rightarrow> Some (sent_status (fst r), sent_body (fst r))
      | Panicked e \<Rightarrow> None)"

text \<open>An inbound HTTP request: its method, whether \<^verbatim>\<open>verifyRequest\<close> accepts it under
  a public key, whether its body can be read, the interaction type the envelope decodes to
  and the interaction the body decodes to (\<open>None\<close> where decoding fails).\<close>

record request =
  Method :: string
  signature_ok :: "nat list \<Rightarrow> bool"
  readable :: bool
  envelope :: "InteractionType option"
  decoded :: "Interaction option"

definition verifyRequest :: "request \<Rightarrow> nat list \<Rightarrow> bool" where
  "verifyRequest r key = signature_ok r key"


section \<open>The client (client.go)\<close>

text \<open>The payload a pre-command handler returns, with what \<^verbatim>\<open>json.Marshal\<close> makes of
  the response envelope that holds it (\<open>None\<close> when it cannot be serialised).\<close>

datatype ResponseData = ResponseData (marshalled: "string option")

record Command =
  CommandName :: string
  CommandOptions :: "CommandOption list"
  AvailableInDM :: bool
  SlashCommandHandler :: "handler option"
  AutoCompleteHandler :: "(handler \<times> (Interaction \<Rightarrow> string option)) option"

definition zeroCommand :: Command where
  "zeroCommand = \<lparr>CommandName = [], CommandOptions = [], AvailableInDM = False,
                   SlashCommandHandler = None, AutoCompleteHandler = None\<rparr>"

record queuedButton =
  CustomIds :: "string list"
  Handler :: handler

record ClientOptions =
  opt_Rest :: Rest
  opt_ApplicationId :: Snowflake
  opt_PublicKey :: string
  InteractionHandler :: "handler option"
  PreCommandExecutionHandler :: "(handler \<times> (Interaction \<Rightarrow> ResponseData option)) option"

text \<open>A Go map is a reference, and \<^verbatim>\<open>nil\<close> until it is made: \<open>None\<close> is the nil
  map. The methods take the client by value, so only what they do to the maps lasts.\<close>

record client =
  client_Rest :: Rest
  ApplicationId :: Snowflake
  PublicKey :: "nat list"
  commands :: "string \<rightharpoonup> (string \<rightharpoonup> Command)"
  queuedButtons :: "(string \<rightharpoonup> queuedButton) option"
  interactionHandler :: "handler option"
  preCommandExecutionHandler :: "(handler \<times> (Interaction \<Rightarrow> ResponseData option)) option"
  running :: bool

subsection \<open>CreateClient\<close>

definition fromHexChar :: "char \<Rightarrow> nat option" where
  "fromHexChar c =
     (let n = (of_char c :: nat)
      in if 48 \<le> n \<and> n \<le> 57 then Some (n - 48)
         else if 97 \<le> n \<and> n \<le> 102 then Some (n - 87)
         else if 65 \<le> n \<and> n \<le> 70 then Some (n - 55)
         else None)"

text \<open>\<^verbatim>\<open>hex.DecodeString\<close> of the standard library: an error (\<open>None\<close>) on a character
  that is no hexadecimal digit and on an odd length.\<close>

fun hex_DecodeString :: "string \<Rightarrow> nat list option" where
  "hex_DecodeString [] = Some []"
| "hex_DecodeString [c] = None"
| "hex_DecodeString (a # b # cs) =
     (case fromHexChar a of
        None \<Rightarrow> None
      | Some x \<Rightarrow>
          (case fromHexChar b of
             None \<Rightarrow> None
           | Some y \<Rightarrow>
               (case hex_DecodeString cs of
                  None \<Rightarrow> None
                | Some bs \<Rightarrow> Some ((16 * x + y) # bs))))"

definition CreateClient :: "ClientOptions \<Rightarrow> string + client" where
  "CreateClient options =
     (case hex_DecodeString (opt_PublicKey options) of
        None \<Rightarrow> Inl ''failed to decode \"%s\" discord's public key (check if it's correct key)''
      | Some discordPublicKey \<Rightarrow>
          Inr \<lparr>client_Rest = opt_Rest options,
               ApplicationId = opt_ApplicationId options,
               PublicKey = discordPublicKey,
               commands = Map.empty,
               queuedButtons = None,
               interactionHandler = InteractionHandler options,
               preCommandExecutionHandler = None,
               running = False\<rparr>)"

subsection \<open>The command registry\<close>

definition RegisterCommand :: "Command \<Rightarrow> client \<Rightarrow> string + client" where
  "RegisterCommand command c =
     (case commands c (CommandName command) of
        None \<Rightarrow>
          Inr (c\<lparr>commands := (commands c)(CommandName command \<mapsto> [''-'' \<mapsto> command])\<rparr>)
      | Some tree \<Rightarrow>
          Inl (''found already registered \"'' @ CommandName command @ ''\" slash command''))"

definition RegisterSubCommand :: "Command \<Rightarrow> string \<Rightarrow> client \<Rightarrow> string + client" where
  "RegisterSubCommand subCommand rootCommandName c =
     (case commands c rootCommandName of
        Some tree \<Rightarrow>
          Inr (c\<lparr>commands := (commands c)(rootCommandName \<mapsto> tree(CommandName subCommand \<mapsto> subCommand))\<rparr>)
      | None \<Rightarrow>
          Inl (''missing \"'' @ rootCommandName @
               ''\" slash command in registry (register root command first before adding subcommands)''))"

text \<open>Reading \<^verbatim>\<open>m[a][b]\<close>: a missing \<^verbatim>\<open>a\<close> gives the nil map, which has no
  entry.\<close>

definition lookup2 :: "('a \<rightharpoonup> ('b \<rightharpoonup> 'c)) \<Rightarrow> 'a \<Rightarrow> 'b \<Rightarrow> 'c option" where
  "lookup2 m a b = (case m a of None \<Rightarrow> None | Some inner \<Rightarrow> inner b)"

definition findCommand ::
  "(string \<rightharpoonup> (string \<rightharpoonup> Command)) \<Rightarrow> Interaction \<Rightarrow> Command \<times> Interaction \<times> bool" where
  "findCommand registry interaction =
     (case Options (Data interaction) of
        opt # others \<Rightarrow>
          if OptionType opt = OPTION_SUB_COMMAND then
            (let rootName = Name (Data interaction);
                 interaction' =
                   interaction\<lparr>Data := (Data interaction)\<lparr>Name := OptionName opt,
                                                               Options := SubOptions opt\<rparr>\<rparr>
             in case lookup2 registry rootName (Name (Data interaction')) of
                  None \<Rightarrow> (zeroCommand, interaction', False)
                | Some command \<Rightarrow> (command, interaction', True))
          else
            (case lookup2 registry (Name (Data interaction)) ''-'' of
               None \<Rightarrow> (zeroCommand, interaction, False)
             | Some command \<Rightarrow> (command, interaction, True))
      | [] \<Rightarrow>
          (case lookup2 registry (Name (Data interaction)) ''-'' of
             None \<Rightarrow> (zeroCommand, interaction, False)
           | Some command \<Rightarrow> (command, interaction, True)))"

definition getCommand :: "client \<Rightarrow> Interaction \<Rightarrow> Command \<times> Interaction \<times> bool" where
  "getCommand c interaction = findCommand (commands c) interaction"

subsection \<open>Waiting for a button\<close>

text \<open>A timer started by \<^verbatim>\<open>time.AfterFunc\<close>: when it is due, and what its function
  holds (the keys and the handler).\<close>

record timer =
  due :: int
  timer_keys :: "string list"
  timer_handler :: handler

text \<open>The running program around a client: its pending timers, its clock and the calls
  of user functions and writes made so far.\<close>

record process =
  the_client :: client
  timers :: "timer list"
  clock :: int
  trace :: "event list"

fun assignAll ::
  "string list \<Rightarrow> queuedButton \<Rightarrow> (string \<rightharpoonup> queuedButton) option
     \<Rightarrow> string + (string \<rightharpoonup> queuedButton) option" where
  "assignAll [] anchor m = Inr m"
| "assignAll (key # keys) anchor None = Inl ''assignment to entry in nil map''"
| "assignAll (key # keys) anchor (Some m) = assignAll keys anchor (Some (m(key \<mapsto> anchor)))"

fun deleteAll ::
  "string list \<Rightarrow> (string \<rightharpoonup> queuedButton) option \<Rightarrow> (string \<rightharpoonup> queuedButton) option" where
  "deleteAll keys None = None"
| "deleteAll [] (Some m) = Some m"
| "deleteAll (key # keys) (Some m) = deleteAll keys (Some (m(key := None)))"

text \<open>\<^verbatim>\<open>CreateButtonMenu\<close>; the handler given is a function, not \<^verbatim>\<open>nil\<close>.\<close>

definition CreateButtonMenu ::
  "string list \<Rightarrow> int \<Rightarrow> handler \<Rightarrow> process \<Rightarrow> string + process" where
  "CreateButtonMenu ids timeout h p =
     (let timeout' = (if second * 3 < timeout then second * 3 else timeout);
          anchor = \<lparr>CustomIds = ids, Handler = h\<rparr>
      in case assignAll ids anchor (queuedButtons (the_client p)) of
           Inl e \<Rightarrow> Inl e
         | Inr m \<Rightarrow>
             Inr (p\<lparr>the_client := (the_client p)\<lparr>queuedButtons := m\<rparr>,
                    timers := timers p @
                      [\<lparr>due = clock p + timeout', timer_keys = ids, timer_handler = h\<rparr>]\<rparr>))"

text \<open>The function given to \<^verbatim>\<open>time.AfterFunc\<close> (client.go, lines 55 to 60).\<close>

definition expire :: "timer \<Rightarrow> process \<Rightarrow> process" where
  "expire tm p =
     p\<lparr>the_client := (the_client p)\<lparr>queuedButtons :=
                        deleteAll (timer_keys tm) (queuedButtons (the_client p))\<rparr>,
       trace := trace p @ [Invoke Queued (timer_handler tm) NilArg]\<rparr>"

text \<open>Time passes: the timers that are due fire, in the order they were started.\<close>

definition elapse :: "int \<Rightarrow> process \<Rightarrow> process" where
  "elapse d p =
     (let t = clock p + d;
          p' = p\<lparr>clock := t, timers := filter (\<lambda>tm. t < due tm) (timers p)\<rparr>
      in foldl (\<lambda>q tm. expire tm q) p' (filter (\<lambda>tm. due tm \<le> t) (timers p)))"


subsection \<open>The webhook handler of client.go\<close>

definition private_UNKNOWN_COMMAND_RESPONSE_RAW_BODY :: string where
  \<comment> \<open>Modelled from the spec: the bytes of the fixed "unknown command" payload are not in
      the sources; the spec says it is a fixed payload sent with HTTP success.\<close>
  "private_UNKNOWN_COMMAND_RESPONSE_RAW_BODY =
     ''{\"type\":4,\"data\":{\"content\":\"unknown command\",\"flags\":64}}''"

definition terminateCommandInteraction :: "event list" where
  \<comment> \<open>Modelled from the spec: \<^verbatim>\<open>terminateCommandInteraction\<close> is not in the sources; the
      spec says an unknown command is answered with the fixed payload and HTTP success.\<close>
  "terminateCommandInteraction =
     [Header ''Content-Type'' ''application/json'',
      Write private_UNKNOWN_COMMAND_RESPONSE_RAW_BODY]"

text \<open>Lines 277 and 278: the status, then the command's handler. Calling a \<^verbatim>\<open>nil\<close>
  function panics.\<close>

definition runCommand :: "Command \<Rightarrow> Interaction \<Rightarrow> run" where
  "runCommand command ctx =
     (case SlashCommandHandler command of
        None \<Rightarrow> ([WriteHeader 204], Panicked ''invalid memory address or nil pointer dereference'')
      | Some h \<Rightarrow> ([WriteHeader 204, Invoke SlashCommand h (ItxArg ctx)], Returned))"

definition commandBranch :: "client \<Rightarrow> Interaction \<Rightarrow> run" where
  "commandBranch c interaction =
     (case getCommand c interaction of
        (command, itx, exists) \<Rightarrow>
          if \<not> exists then (terminateCommandInteraction, Returned)
          else if GuildID itx = 0 \<and> \<not> AvailableInDM command then ([WriteHeader 204], Returned)
          else
            (case preCommandExecutionHandler c of
               None \<Rightarrow> runCommand command itx
             | Some (h, f) \<Rightarrow>
                 before [Invoke PreCommand h (ItxArg itx)]
                   (case f itx of
                      None \<Rightarrow> runCommand command itx
                    | Some content \<Rightarrow>
                        (case marshalled content of
                           None \<Rightarrow>
                             ([], Panicked ''failed to parse payload received from client's \"pre command execution\" handler (make sure it's in JSON format)'')
                         | Some body \<Rightarrow>
                             ([Header ''Content-Type'' ''application/json'', Write body],
                              Returned)))))"

definition unhandled :: "client \<Rightarrow> Interaction \<Rightarrow> event list" where
  "unhandled c interaction =
     (case interactionHandler c of
        None \<Rightarrow> []
      | Some h \<Rightarrow> [Invoke Generic h (ItxArg interaction)])"

definition lookupQueue :: "(string \<rightharpoonup> queuedButton) option \<Rightarrow> string \<Rightarrow> queuedButton option" where
  "lookupQueue q key = (case q of None \<Rightarrow> None | Some m \<Rightarrow> m key)"

text \<open>The branch for components gives the map of waits back as it leaves it.\<close>

definition componentBranch ::
  "client \<Rightarrow> Interaction \<Rightarrow> run \<times> (string \<rightharpoonup> queuedButton) option" where
  "componentBranch c interaction =
     (case ComponentType (Data interaction) of
        COMPONENT_BUTTON \<Rightarrow>
          (case lookupQueue (queuedButtons c) (CustomId (Data interaction)) of
             Some queue \<Rightarrow>
               (([Invoke Queued (Handler queue) (ItxArg interaction)] @
                 unhandled c interaction @ [WriteHeader 204], Returned),
                deleteAll (CustomIds queue) (queuedButtons c))
           | None \<Rightarrow>
               ((unhandled c interaction @ [WriteHeader 204], Returned), queuedButtons c))
      | OTHER_COMPONENT \<Rightarrow> ((unhandled c interaction, Returned), queuedButtons c))"

definition autoCompleteBranch ::
  "(string \<rightharpoonup> (string \<rightharpoonup> Command)) \<Rightarrow> Interaction \<Rightarrow> run" where
  "autoCompleteBranch registry interaction =
     (case findCommand registry interaction of
        (command, itx, exists) \<Rightarrow>
          if \<not> exists \<or> AutoCompleteHandler command = None \<or> CommandOptions command = []
          then ([WriteHeader 204], Returned)
          else
            (case AutoCompleteHandler command of
               None \<Rightarrow> ([], Panicked ''invalid memory address or nil pointer dereference'')
             | Some (h, f) \<Rightarrow>
                 before [Invoke AutoComplete h (ItxArg itx)]
                   (case f itx of
                      None \<Rightarrow>
                        ([], Panicked ''failed to parse payload received from client's \"auto complete\" handler (make sure it's in JSON format)'')
                    | Some body \<Rightarrow>
                        ([Header ''Content-Type'' ''application/json'', Write body],
                         Returned))))"

definition dispatch ::
  "client \<Rightarrow> Interaction \<Rightarrow> run \<times> (string \<rightharpoonup> queuedButton) option" where
  "dispatch c interaction =
     (case Type interaction of
        PING_INTERACTION_TYPE \<Rightarrow> (([Write ''{\"type\":1}''], Returned), queuedButtons c)
      | APPLICATION_COMMAND_INTERACTION_TYPE \<Rightarrow> (commandBranch c interaction, queuedButtons c)
      | MESSAGE_COMPONENT_INTERACTION_TYPE \<Rightarrow> componentBranch c interaction
      | APPLICATION_COMMAND_AUTO_COMPLETE_INTERACTION_TYPE \<Rightarrow>
          (autoCompleteBranch (commands c) interaction, queuedButtons c)
      | MODAL_SUBMIT_INTERACTION_TYPE \<Rightarrow> ((unhandled c interaction, Returned), queuedButtons c)
      | OTHER_INTERACTION_TYPE \<Rightarrow> ((unhandled c interaction, Returned), queuedButtons c))"

text \<open>\<^verbatim>\<open>defer r.Body.Close()\<close> stands after the decoding: the body is closed when the
  handler is left, also by a panic.\<close>

definition closing :: "event list \<Rightarrow> run \<Rightarrow> run" where
  "closing es r = (es @ fst r @ [BodyClose], snd r)"

definition handleDiscordWebhookRequests ::
  "client \<Rightarrow> request \<Rightarrow> run \<times> (string \<rightharpoonup> queuedButton) option" where
  "handleDiscordWebhookRequests c r =
     (if Method r \<noteq> ''POST'' then
        ((http_Error ''Method Not Allowed.'' 405, Returned), queuedButtons c)
      else if \<not> verifyRequest r (PublicKey c) then
        ((VerifyRequest # http_Error ''Unauthorized'' 401, Returned), queuedButtons c)
      else
        (case decoded r of
           None \<Rightarrow>
             (([VerifyRequest, Decode] @ http_Error ''Bad Request'' 400,
               Panicked ''json: cannot decode the body''), queuedButtons c)
         | Some interaction \<Rightarrow>
             (closing [VerifyRequest, Decode] (fst (dispatch c interaction)),
              snd (dispatch c interaction))))"

text \<open>A webhook request reaches the running program.\<close>

definition deliver :: "request \<Rightarrow> process \<Rightarrow> process" where
  "deliver r p =
     p\<lparr>the_client := (the_client p)\<lparr>queuedButtons :=
                        snd (handleDiscordWebhookRequests (the_client p) r)\<rparr>,
       trace := trace p @ fst (fst (handleDiscordWebhookRequests (the_client p) r))\<rparr>"

subsection \<open>FetchUser and FetchMember\<close>

function String_of :: "nat \<Rightarrow> string" where
  "String_of n =
     (if n < 10 then [char_of (48 + n)] else String_of (n div 10) @ [char_of (48 + n mod 10)])"
  by pat_completeness auto
termination
  by (relation "measure (\<lambda>n. n)") auto

text \<open>\<^verbatim>\<open>client.Rest.Request\<close> is given as the function from method and route to the
  bytes and the error it returns, \<^verbatim>\<open>json.Unmarshal\<close> as the function from the bytes and
  the target to the target it leaves and its error.\<close>

definition FetchUser ::
  "(string \<Rightarrow> string \<Rightarrow> string option \<times> string option)
     \<Rightarrow> (string option \<Rightarrow> 'user \<Rightarrow> 'user \<times> string option)
     \<Rightarrow> 'user \<Rightarrow> Snowflake \<Rightarrow> 'user \<times> string option" where
  "FetchUser Rest_Request json_Unmarshal zero userId =
     (case Rest_Request ''GET'' (''/users/'' @ String_of userId) of
        (raw, err) \<Rightarrow>
          (case err of
             Some e \<Rightarrow> (zero, Some e)
           | None \<Rightarrow>
               (let res = fst (json_Unmarshal raw zero)
                in case err of
                     Some e \<Rightarrow> (zero, Some ''failed to parse received data from discord'')
                   | None \<Rightarrow> (res, None))))"

definition FetchMember ::
  "(string \<Rightarrow> string \<Rightarrow> string option \<times> string option)
     \<Rightarrow> (string option \<Rightarrow> 'member \<Rightarrow> 'member \<times> string option)
     \<Rightarrow> 'member \<Rightarrow> Snowflake \<Rightarrow> Snowflake \<Rightarrow> 'member \<times> string option" where
  "FetchMember Rest_Request json_Unmarshal zero guildId memberId =
     (case Rest_Request ''GET''
             (''/guilds/'' @ String_of guildId @ ''/members/'' @ String_of memberId) of
        (raw, err) \<Rightarrow>
          (case err of
             Some e \<Rightarrow> (zero, Some e)
           | None \<Rightarrow>
               (let res = fst (json_Unmarshal raw zero)
                in case err of
                     Some e \<Rightarrow> (zero, Some ''failed to parse received data from discord'')
                   | None \<Rightarrow> (res, None))))"

text \<open>\<^verbatim>\<open>SendMessage\<close> checks the error of \<^verbatim>\<open>json.Unmarshal\<close> itself.\<close>

definition SendMessage ::
  "(string \<Rightarrow> string \<Rightarrow> string option \<times> string option)
     \<Rightarrow> (string option \<Rightarrow> 'message \<Rightarrow> 'message \<times> string option)
     \<Rightarrow> 'message \<Rightarrow> Snowflake \<Rightarrow> 'message \<times> string option" where
  "SendMessage Rest_Request json_Unmarshal zero channelId =
     (case Rest_Request ''POST'' (''/channels/'' @ String_of channelId @ ''/messages'') of
        (raw, err) \<Rightarrow>
          (case err of
             Some e \<Rightarrow> (zero, Some e)
           | None \<Rightarrow>
               (case json_Unmarshal raw zero of
                  (res, err') \<Rightarrow>
                    (case err' of
                       Some e \<Rightarrow> (zero, Some ''failed to parse received data from discord'')
                     | None \<Rightarrow> (res, None)))))"


section \<open>The webhook handler with handler tables (handleRequest)\<close>

text \<open>A handler of a component or of a modal is given the response writer: it is known
  by its name and by the calls it makes on the writer for an interaction. A wait is a
  channel, known by a name; a table can hold \<^verbatim>\<open>nil\<close> (\<open>None\<close>) under a key.\<close>

type_synonym responder = "handler \<times> (Interaction \<Rightarrow> event list)"

record Client =
  Client_PublicKey :: "nat list"
  Client_commands :: "string \<rightharpoonup> (string \<rightharpoonup> Command)"
  components :: "string \<rightharpoonup> responder option"
  modals :: "string \<rightharpoonup> responder option"
  queuedComponents :: "string \<rightharpoonup> string option"
  queuedModals :: "string \<rightharpoonup> string option"
  commandMiddlewareHandler :: "(handler \<times> (Interaction \<Rightarrow> bool)) option"
  componentHandler :: "responder option"
  modalHandler :: "responder option"

definition private_PING_RESPONSE_RAW_BODY :: string where
  \<comment> \<open>Modelled from the spec: the bytes of the fixed acknowledgement of a ping are not
      in the sources; client.go answers a ping with these.\<close>
  "private_PING_RESPONSE_RAW_BODY = ''{\"type\":1}''"

definition private_ACKNOWLEDGE_RESPONSE_RAW_BODY :: string where
  \<comment> \<open>Modelled from the spec: the bytes of the lightweight "acknowledged" response are
      not in the sources.\<close>
  "private_ACKNOWLEDGE_RESPONSE_RAW_BODY = ''{\"type\":6}''"

definition seekCommand :: "Client \<Rightarrow> Interaction \<Rightarrow> Command \<times> Interaction \<times> bool" where
  \<comment> \<open>Modelled from the spec: \<^verbatim>\<open>seekCommand\<close> is not in the sources; the spec resolves
      the root command and descends one level when the first option is a subcommand, as
      \<^verbatim>\<open>getCommand\<close> of client.go does.\<close>
  "seekCommand c interaction = findCommand (Client_commands c) interaction"

text \<open>\<^verbatim>\<open>v, available := table[key]\<close> followed by \<^verbatim>\<open>available && v != nil\<close>.\<close>

definition available :: "('k \<rightharpoonup> 'v option) \<Rightarrow> 'k \<Rightarrow> 'v option" where
  "available table key = (case table key of None \<Rightarrow> None | Some v \<Rightarrow> v)"

definition own :: "role \<Rightarrow> responder \<Rightarrow> Interaction \<Rightarrow> event list" where
  "own r fn itx = Invoke r (fst fn) (ItxArg itx) # snd fn itx"

definition acknowledge :: "string \<Rightarrow> Interaction \<Rightarrow> event list" where
  "acknowledge signalChannel itx =
     [Header ''Content-Type'' ''application/json'',
      Write private_ACKNOWLEDGE_RESPONSE_RAW_BODY,
      Send signalChannel itx]"

definition commandCase :: "Client \<Rightarrow> Interaction \<Rightarrow> run" where
  "commandCase c interaction =
     (case seekCommand c interaction of
        (command, itx, avail) \<Rightarrow>
          if \<not> avail then
            ([Header ''Content-Type'' ''application/json'',
              Write private_UNKNOWN_COMMAND_RESPONSE_RAW_BODY], Returned)
          else
            before [WriteHeader 204]
              (if \<not> AvailableInDM command \<and> GuildID interaction = 0 then
                 ([WriteHeader 204], Returned)
               else
                 (case commandMiddlewareHandler c of
                    None \<Rightarrow>
                      (case SlashCommandHandler command of
                         None \<Rightarrow> ([], Panicked ''invalid memory address or nil pointer dereference'')
                       | Some h \<Rightarrow> ([Invoke SlashCommand h (ItxArg itx)], Returned))
                  | Some (m, f) \<Rightarrow>
                      before [Invoke Middleware m (ItxArg itx)]
                        (if \<not> f itx then ([], Returned)
                         else
                           (case SlashCommandHandler command of
                              None \<Rightarrow>
                                ([], Panicked ''invalid memory address or nil pointer dereference'')
                            | Some h \<Rightarrow> ([Invoke SlashCommand h (ItxArg itx)], Returned))))))"

definition componentCase :: "Client \<Rightarrow> Interaction \<Rightarrow> run" where
  "componentCase c itx =
     (case available (components c) (CustomId (Data itx)) of
        Some fn \<Rightarrow> (own Permanent fn itx, Returned)
      | None \<Rightarrow>
          (case available (queuedComponents c) (CustomId (Data itx)) of
             Some signalChannel \<Rightarrow> (acknowledge signalChannel itx, Returned)
           | None \<Rightarrow>
               (case componentHandler c of
                  Some fn \<Rightarrow> (own Fallback fn itx, Returned)
                | None \<Rightarrow> ([], Returned))))"

definition modalCase :: "Client \<Rightarrow> Interaction \<Rightarrow> run" where
  "modalCase c itx =
     (case available (modals c) (CustomId (Data itx)) of
        Some fn \<Rightarrow> (own Permanent fn itx, Returned)
      | None \<Rightarrow>
          ((case available (queuedModals c) (CustomId (Data itx)) of
              Some signalChannel \<Rightarrow> acknowledge signalChannel itx
            | None \<Rightarrow> []) @
           (case modalHandler c of
              Some fn \<Rightarrow> own Fallback fn itx
            | None \<Rightarrow> []),
           Returned))"

text \<open>Each case but the ping decodes the body again, into the interaction of its type,
  and answers 400 and panics when that fails.\<close>

definition decodeThen :: "request \<Rightarrow> (Interaction \<Rightarrow> run) \<Rightarrow> run" where
  "decodeThen r k =
     (case decoded r of
        None \<Rightarrow> (Decode # http_Error ''bad request'' 400, Panicked ''cannot decode the body'')
      | Some itx \<Rightarrow> before [Decode] (k itx))"

definition route :: "Client \<Rightarrow> request \<Rightarrow> InteractionType \<Rightarrow> run" where
  "route c r t =
     (case t of
        PING_INTERACTION_TYPE \<Rightarrow>
          ([Header ''Content-Type'' ''application/json'', Write private_PING_RESPONSE_RAW_BODY],
           Returned)
      | APPLICATION_COMMAND_INTERACTION_TYPE \<Rightarrow> decodeThen r (commandCase c)
      | MESSAGE_COMPONENT_INTERACTION_TYPE \<Rightarrow> decodeThen r (componentCase c)
      | APPLICATION_COMMAND_AUTO_COMPLETE_INTERACTION_TYPE \<Rightarrow>
          decodeThen r (autoCompleteBranch (Client_commands c))
      | MODAL_SUBMIT_INTERACTION_TYPE \<Rightarrow> decodeThen r (modalCase c)
      | OTHER_INTERACTION_TYPE \<Rightarrow> ([], Returned))"

definition handleRequest :: "Client \<Rightarrow> request \<Rightarrow> run" where
  "handleRequest c r =
     (if Method r \<noteq> ''POST'' then (http_Error ''method not allowed'' 405, Returned)
      else if \<not> verifyRequest r (Client_PublicKey c) then
        (VerifyRequest # http_Error ''unauthorized'' 401, Returned)
      else if \<not> readable r then
        ([VerifyRequest, ReadAll] @ http_Error ''bad request'' 400,
         Panicked ''cannot read the body'')
      else
        (case envelope r of
           None \<Rightarrow>
             ([VerifyRequest, ReadAll, Decode] @ http_Error ''bad request'' 400,
              Panicked ''cannot decode the body'')
         | Some t \<Rightarrow> closing [VerifyRequest, ReadAll, Decode] (route c r t)))"


section \<open>Concrete inputs\<close>

definition freshRest :: Rest where
  "freshRest = \<lparr>mu_readers = 0, mu_writer = False, token = ''Bot token'', lockedTo = None,
                now = 0, slept = [], calls = 0\<rparr>"

text \<open>A server that fails twice at the transport and then answers 200.\<close>

definition flaky :: transport where
  "flaky =
     \<lparr>httpClient = (\<lambda>n. if n < 2 then DoError ''connection reset''
                         else DoResponse \<lparr>StatusCode = 200, Status = ''200 OK'',
                                          Body = Inr ''{}'', RetryAfter = 0\<rparr>),
      NewRequest = (\<lambda>method route. None),
      float32_plus = (\<lambda>x y. x + y)\<rparr>"

text \<open>A server that answers 429 with \<^verbatim>\<open>retry_after\<close> 1, then 200.\<close>

definition limited :: transport where
  "limited =
     \<lparr>httpClient = (\<lambda>n. if n < 1 then DoResponse \<lparr>StatusCode = 429,
                                          Status = ''429 Too Many Requests'',
                                          Body = Inr ''{}'', RetryAfter = 1\<rparr>
                         else DoResponse \<lparr>StatusCode = 200, Status = ''200 OK'',
                                          Body = Inr ''{}'', RetryAfter = 0\<rparr>),
      NewRequest = (\<lambda>method route. None),
      float32_plus = (\<lambda>x y. x + y)\<rparr>"

definition someOptions :: ClientOptions where
  "someOptions =
     \<lparr>opt_Rest = freshRest, opt_ApplicationId = 7, opt_PublicKey = ''0aff'',
      InteractionHandler = None,
      PreCommandExecutionHandler =
        Some (''guard'', \<lambda>itx. Some (ResponseData (Some ''{}'')))\<rparr>"

definition createdClient :: client where
  "createdClient =
     \<lparr>client_Rest = freshRest, ApplicationId = 7, PublicKey = [10, 255],
      commands = Map.empty, queuedButtons = None, interactionHandler = None,
      preCommandExecutionHandler = None, running = False\<rparr>"

text \<open>A client whose map of waits has been made.\<close>

definition menuClient :: client where
  "menuClient = createdClient\<lparr>queuedButtons := Some Map.empty\<rparr>"

definition started :: "client \<Rightarrow> process" where
  "started c = \<lparr>the_client = c, timers = [], clock = 0, trace = []\<rparr>"

definition click :: "string \<Rightarrow> Interaction" where
  "click key =
     \<lparr>Type = MESSAGE_COMPONENT_INTERACTION_TYPE, GuildID = 1,
      Data = \<lparr>Name = [], Options = [], CustomId = key, ComponentType = COMPONENT_BUTTON\<rparr>\<rparr>"

definition submit :: "string \<Rightarrow> Interaction" where
  "submit key =
     \<lparr>Type = MODAL_SUBMIT_INTERACTION_TYPE, GuildID = 1,
      Data = \<lparr>Name = [], Options = [], CustomId = key, ComponentType = OTHER_COMPONENT\<rparr>\<rparr>"

text \<open>A command invoked in a direct message: no guild.\<close>

definition invoke_in_DM :: "string \<Rightarrow> Interaction" where
  "invoke_in_DM name =
     \<lparr>Type = APPLICATION_COMMAND_INTERACTION_TYPE, GuildID = 0,
      Data = \<lparr>Name = name, Options = [], CustomId = [], ComponentType = OTHER_COMPONENT\<rparr>\<rparr>"

definition post :: "Interaction \<Rightarrow> request" where
  "post itx =
     \<lparr>Method = ''POST'', signature_ok = (\<lambda>key. True), readable = True,
      envelope = Some (Type itx), decoded = Some itx\<rparr>"

definition banCommand :: Command where
  "banCommand =
     \<lparr>CommandName = ''ban'', CommandOptions = [], AvailableInDM = False,
      SlashCommandHandler = Some ''onBan'', AutoCompleteHandler = None\<rparr>"

definition pingCommand :: Command where
  "pingCommand =
     \<lparr>CommandName = ''ping'', CommandOptions = [], AvailableInDM = True,
      SlashCommandHandler = Some ''onPing'', AutoCompleteHandler = None\<rparr>"

text \<open>A command with an autocomplete handler and one option.\<close>

definition searchCommand :: Command where
  "searchCommand =
     \<lparr>CommandName = ''search'',
      CommandOptions = [CommandOption OTHER_OPTION ''query'' []],
      AvailableInDM = True,
      SlashCommandHandler = Some ''onSearch'',
      AutoCompleteHandler = Some (''complete'', \<lambda>itx. Some ''{\"type\":8}'')\<rparr>"

definition invoke :: "InteractionType \<Rightarrow> string \<Rightarrow> Interaction" where
  "invoke t name =
     \<lparr>Type = t, GuildID = 1,
      Data = \<lparr>Name = name, Options = [], CustomId = [], ComponentType = OTHER_COMPONENT\<rparr>\<rparr>"

definition threeCommands :: "string \<rightharpoonup> (string \<rightharpoonup> Command)" where
  "threeCommands =
     [''ban'' \<mapsto> [''-'' \<mapsto> banCommand], ''ping'' \<mapsto> [''-'' \<mapsto> pingCommand],
      ''search'' \<mapsto> [''-'' \<mapsto> searchCommand]]"

text \<open>A client of client.go with three commands, a generic handler, and a hook that
  answers the command \<^verbatim>\<open>ping\<close> itself and lets the others pass.\<close>

definition guardedClient :: client where
  "guardedClient =
     createdClient
       \<lparr>commands := threeCommands,
        interactionHandler := Some ''any'',
        preCommandExecutionHandler :=
          Some (''guard'',
                \<lambda>itx. if Name (Data itx) = ''ping''
                       then Some (ResponseData (Some ''{\"type\":4}'')) else None)\<rparr>"

definition emptyClient :: Client where
  "emptyClient =
     \<lparr>Client_PublicKey = [10, 255], Client_commands = Map.empty,
      components = Map.empty, modals = Map.empty,
      queuedComponents = Map.empty, queuedModals = Map.empty,
      commandMiddlewareHandler = None, componentHandler = None, modalHandler = None\<rparr>"

text \<open>A client with one command, a middleware, a wait armed for the modal \<^verbatim>\<open>form\<close> and
  for the component \<^verbatim>\<open>yes\<close>, and both generic handlers, each answering 204.\<close>

definition waitingClient :: Client where
  "waitingClient =
     emptyClient
       \<lparr>Client_commands := [''ban'' \<mapsto> [''-'' \<mapsto> banCommand]],
        queuedComponents := [''yes'' \<mapsto> Some ''componentWait''],
        queuedModals := [''form'' \<mapsto> Some ''modalWait''],
        commandMiddlewareHandler := Some (''middleware'', \<lambda>itx. True),
        componentHandler := Some (''anyComponent'', \<lambda>itx. [WriteHeader 204]),
        modalHandler := Some (''anyModal'', \<lambda>itx. [WriteHeader 204])\<rparr>"


text \<open>A client with the three commands and a wait armed for the modal \<^verbatim>\<open>form\<close> and
  for the component \<^verbatim>\<open>yes\<close>, and no other handler.\<close>

definition tablesClient :: Client where
  "tablesClient =
     emptyClient
       \<lparr>Client_commands := threeCommands,
        queuedComponents := [''yes'' \<mapsto> Some ''componentWait''],
        queuedModals := [''form'' \<mapsto> Some ''modalWait'']\<rparr>"

section \<open>The retry loop and the rate limit of the REST transport\<close>

lemma handleRequest_rest_calls:
  "handleRequest_rest t m r p s = Returns x s' \<Longrightarrow> calls s' \<le> calls s + 1"
  by (auto simp: handleRequest_rest_def doRequest_def rateLimited_def Lock_def Unlock_def
        Sleep_def Let_def
      split: payload.splits option.splits http_reply.splits if_splits sum.splits)

lemma Sleep_calls: "calls (Sleep d s) = calls s"
  by (simp add: Sleep_def)

text \<open>Two unfinished attempts end the loop: the third attempt is never made, whatever
  the server would have answered.\<close>

lemma Request_loop_two_unfinished:
  assumes "handleRequest_rest t m r p s1 = Returns (raw1, err1, False) s2"
    and "handleRequest_rest t m r p (Sleep 250000 s2) = Returns (raw2, err2, False) s3"
  shows "Request_loop t m r p 1 s1 =
     Returns (None, Some (''failed to make http request 3 times to '' @ m @ '' :: '' @ r @
                   '' (check internet connection and/or app credentials)'')) (Sleep 500000 s3)"
  using assms by (simp add: microsecond_def)

lemma Request_loop_calls:
  assumes a: "Request_loop t m r p 1 s = Returns x s'"
  shows "calls s' \<le> calls s + 2"
proof (cases "handleRequest_rest t m r p s")
  case (BlocksForever s1)
  with a show ?thesis by simp
next
  case (Returns y s1)
  obtain raw err fin where y: "y = (raw, err, fin)" by (cases y) auto
  have c1: "calls s1 \<le> calls s + 1" using handleRequest_rest_calls Returns by blast
  show ?thesis
  proof (cases fin)
    case True
    with a Returns y have "s' = s1" by simp
    with c1 show ?thesis by simp
  next
    case False
    note nf = this
    let ?s2 = "Sleep (microsecond * 250) s1"
    show ?thesis
    proof (cases "handleRequest_rest t m r p ?s2")
      case (BlocksForever s3)
      with a Returns y nf show ?thesis by simp
    next
      case R2: (Returns y2 s3)
      obtain raw2 err2 fin2 where y2: "y2 = (raw2, err2, fin2)" by (cases y2) auto
      have c2: "calls s3 \<le> calls ?s2 + 1" using handleRequest_rest_calls R2 by blast
      have "calls s' = calls s3"
        using a Returns y nf R2 y2 by (cases fin2) (auto simp: Sleep_calls)
      with c1 c2 show ?thesis by (simp add: Sleep_calls)
    qed
  qed
qed

text \<open>Whatever the server answers, a \<^verbatim>\<open>Request\<close> that returns has made at most two
  calls.\<close>

lemma Request_calls:
  "Request t m r p s = Returns x s' \<Longrightarrow> calls s' \<le> calls s + 2"
  unfolding Request_def RLock_def RUnlock_def Until_def Let_def
  by (auto simp del: Request_loop.simps simp: Sleep_calls split: if_splits option.splits
      dest!: Request_loop_calls[unfolded One_nat_def])

text \<open>
  C2, as the code has it. The claim: two unfinished attempts followed by a success give
  the success, after three calls. The loop runs for \<^verbatim>\<open>i = 1\<close> and \<^verbatim>\<open>i = 2\<close> only:
  against a server that fails twice and would then answer 200, \<^verbatim>\<open>Request\<close> makes two
  calls, sleeps 250 and 500 microseconds, and returns the failure that says "3 times".
\<close>

theorem Request_gives_up_after_two_attempts:
  "Request flaky ''GET'' ''/gateway'' NilPayload freshRest =
     Returns (None, Some ''failed to make http request 3 times to GET :: /gateway (check internet connection and/or app credentials)'')
       (freshRest\<lparr>mu_readers := 1, now := 750000, slept := [250000, 500000], calls := 2\<rparr>)"
  by (simp add: Request_def RLock_def handleRequest_rest_def doRequest_def Sleep_def
      microsecond_def freshRest_def flaky_def)

text \<open>The branch for status 429 alone, entered with the lock free, sets the deadline,
  sleeps until it and clears it; the seconds are the \<^verbatim>\<open>float32\<close> sum of
  \<^verbatim>\<open>retry_after\<close> and 5, cut to a whole number.\<close>

lemma rateLimited_lock_free:
  "mu_readers s = 0 \<Longrightarrow> \<not> mu_writer s \<Longrightarrow> 0 \<le> float32_plus t (RetryAfter res) 5 \<Longrightarrow>
   rateLimited t res s = Returns (None, Some ''rate limit'', False)
     (s\<lparr>mu_writer := False, lockedTo := None,
        now := now s + second * trunc (float32_plus t (RetryAfter res) 5),
        slept := slept s @ [second * trunc (float32_plus t (RetryAfter res) 5)]\<rparr>)"
  by (simp add: rateLimited_def Lock_def Unlock_def Sleep_def Until_def Let_def trunc_def
      second_def)

lemma rateLimited_read_locked:
  "0 < mu_readers s \<Longrightarrow> rateLimited t res s = BlocksForever s"
  by (simp add: rateLimited_def Lock_def)

text \<open>\<^verbatim>\<open>Request\<close> on a transport whose deadline is not set keeps its read lock: it
  unlocks only inside \<^verbatim>\<open>if !rest.lockedTo.IsZero()\<close>.\<close>

lemma Request_keeps_read_lock:
  "\<not> mu_writer s \<Longrightarrow> lockedTo s = None \<Longrightarrow>
   Request t m r p s = Request_loop t m r p 1 (s\<lparr>mu_readers := mu_readers s + 1\<rparr>)"
  by (simp add: Request_def RLock_def del: Request_loop.simps)

text \<open>
  C5, as the code has it. The claim: on a 429 \<^verbatim>\<open>handleRequest\<close> sets the shared
  deadline, waits and clears it. Reached through \<^verbatim>\<open>Request\<close> on a fresh transport,
  \<^verbatim>\<open>handleRequest\<close> asks for the write lock while \<^verbatim>\<open>Request\<close> still holds its read
  lock: the call never returns, and the deadline is never set.
\<close>

theorem Request_rate_limit_blocks_forever:
  "Request limited ''GET'' ''/gateway'' NilPayload freshRest =
     BlocksForever (freshRest\<lparr>mu_readers := 1, calls := 1\<rparr>)"
  by (simp add: Request_def RLock_def Lock_def handleRequest_rest_def doRequest_def
      rateLimited_def freshRest_def limited_def)


section \<open>The client that CreateClient builds\<close>

lemmas webhook_defs = handleDiscordWebhookRequests_def verifyRequest_def dispatch_def
  componentBranch_def lookupQueue_def unhandled_def closing_def commandBranch_def getCommand_def
  runCommand_def before_def autoCompleteBranch_def terminateCommandInteraction_def
  http_Error_def

lemma CreateClient_someOptions: "CreateClient someOptions = Inr createdClient"
  by (simp add: CreateClient_def someOptions_def createdClient_def fromHexChar_def)

lemma CreateClient_fields:
  "CreateClient options = Inr c \<Longrightarrow>
   queuedButtons c = None \<and> preCommandExecutionHandler c = None"
  by (auto simp: CreateClient_def split: option.splits)

lemma no_handler_no_PreCommand:
  "preCommandExecutionHandler c = None \<Longrightarrow>
   \<not> list_ex (invoked_as PreCommand) (fst (fst (handleDiscordWebhookRequests c r)))"
  by (auto simp: webhook_defs
      split: option.splits InteractionType.splits ComponentType.splits prod.splits if_splits)

text \<open>Registering commands leaves the hook as it is.\<close>

lemma RegisterCommand_preCommandExecutionHandler:
  "RegisterCommand command c = Inr c' \<Longrightarrow>
   preCommandExecutionHandler c' = preCommandExecutionHandler c"
  by (auto simp: RegisterCommand_def split: option.splits)

lemma RegisterSubCommand_preCommandExecutionHandler:
  "RegisterSubCommand command rootName c = Inr c' \<Longrightarrow>
   preCommandExecutionHandler c' = preCommandExecutionHandler c"
  by (auto simp: RegisterSubCommand_def split: option.splits)

text \<open>
  C8. Whatever the options hold, the client that \<^verbatim>\<open>CreateClient\<close> returns has no
  pre-command hook, and the webhook handler of that client never calls one, for every
  request, whatever commands are registered and whatever waits are armed.
\<close>

theorem CreateClient_drops_PreCommandExecutionHandler:
  assumes "CreateClient options = Inr c"
  shows "preCommandExecutionHandler c = None \<and>
     \<not> list_ex (invoked_as PreCommand)
         (fst (fst (handleDiscordWebhookRequests
                      (c\<lparr>commands := registry, queuedButtons := q\<rparr>) r)))"
  using CreateClient_fields[OF assms] by (simp add: no_handler_no_PreCommand)

theorem CreateClient_drops_PreCommandExecutionHandler_witness:
  "PreCommandExecutionHandler someOptions \<noteq> None \<and>
   CreateClient someOptions = Inr createdClient \<and>
   preCommandExecutionHandler createdClient = None \<and>
   \<not> list_ex (invoked_as PreCommand)
       (fst (fst (handleDiscordWebhookRequests
                    (createdClient\<lparr>commands := [''ping'' \<mapsto> [''-'' \<mapsto> pingCommand]],
                                   queuedButtons := None\<rparr>)
                    (post (invoke_in_DM ''ping'')))))"
  using CreateClient_drops_PreCommandExecutionHandler
          [where options = someOptions and c = createdClient
             and registry = "[''ping'' \<mapsto> [''-'' \<mapsto> pingCommand]]" and q = None
             and r = "post (invoke_in_DM ''ping'')"]
        CreateClient_someOptions
  by (simp add: someOptions_def)

text \<open>
  C9, as claimed, fails for an empty list of keys: the loop that assigns into the nil map
  has no turn, nothing panics, and the expiry timer is started.
\<close>

theorem CreateButtonMenu_no_keys_no_panic:
  "CreateClient someOptions = Inr createdClient \<and> queuedButtons createdClient = None \<and>
   CreateButtonMenu [] second ''onClick'' (started createdClient) =
     Inr ((started createdClient)
            \<lparr>timers := [\<lparr>due = second, timer_keys = [], timer_handler = ''onClick''\<rparr>]\<rparr>)"
  by (simp add: CreateClient_def someOptions_def createdClient_def fromHexChar_def
      CreateButtonMenu_def started_def second_def Let_def)

text \<open>On a nil map of waits nothing that runs arms a key: a webhook request and the
  passing of time leave the map nil, and \<^verbatim>\<open>CreateButtonMenu\<close> panics or, with no key,
  only starts its timer.\<close>

lemma deliver_nil_map:
  "queuedButtons (the_client p) = None \<Longrightarrow> queuedButtons (the_client (deliver r p)) = None"
  by (auto simp: deliver_def handleDiscordWebhookRequests_def dispatch_def componentBranch_def
        lookupQueue_def
      split: option.splits InteractionType.splits ComponentType.splits)

lemma expire_nil_map:
  "queuedButtons (the_client p) = None \<Longrightarrow> queuedButtons (the_client (expire tm p)) = None"
  by (simp add: expire_def)

lemma foldl_expire_nil_map:
  "queuedButtons (the_client p) = None \<Longrightarrow>
   queuedButtons (the_client (foldl (\<lambda>q tm. expire tm q) p tms)) = None"
  by (induction tms arbitrary: p) (simp_all add: expire_nil_map)

lemma elapse_nil_map:
  "queuedButtons (the_client p) = None \<Longrightarrow> queuedButtons (the_client (elapse d p)) = None"
  by (simp add: elapse_def Let_def foldl_expire_nil_map)

lemma CreateButtonMenu_nil_map:
  assumes "queuedButtons (the_client p) = None"
  shows "CreateButtonMenu ids timeout h p =
     (if ids = [] then
        Inr (p\<lparr>timers := timers p @
                 [\<lparr>due = clock p + (if second * 3 < timeout then second * 3 else timeout),
                   timer_keys = [], timer_handler = h\<rparr>]\<rparr>)
      else Inl ''assignment to entry in nil map'')"
proof (cases ids)
  case Nil
  have "(the_client p)\<lparr>queuedButtons := None\<rparr> = the_client p"
    using assms by (cases "the_client p") simp
  with Nil assms show ?thesis by (simp add: CreateButtonMenu_def Let_def)
next
  case (Cons k ks)
  with assms show ?thesis by (simp add: CreateButtonMenu_def Let_def)
qed

text \<open>
  C9, amended. The client that \<^verbatim>\<open>CreateClient\<close> returns has a nil map of waits,
  whatever commands are registered on it afterwards. On it \<^verbatim>\<open>CreateButtonMenu\<close> with
  at least one key panics on the assignment; with no key it does not panic and only
  starts the expiry timer, with the timeout cut to three seconds. A webhook request and
  the passing of time leave the map nil as well: no key is ever armed.
\<close>

theorem CreateButtonMenu_on_created_client:
  assumes "CreateClient options = Inr c" and "the_client p = c\<lparr>commands := registry\<rparr>"
  shows "queuedButtons (the_client p) = None \<and>
    CreateButtonMenu ids timeout h p =
     (if ids = [] then
        Inr (p\<lparr>timers := timers p @
                 [\<lparr>due = clock p + (if second * 3 < timeout then second * 3 else timeout),
                   timer_keys = [], timer_handler = h\<rparr>]\<rparr>)
      else Inl ''assignment to entry in nil map'') \<and>
    queuedButtons (the_client (deliver r p)) = None \<and>
    queuedButtons (the_client (elapse d p)) = None"
proof -
  have q: "queuedButtons (the_client p) = None"
    using assms CreateClient_fields by auto
  show ?thesis
    using q CreateButtonMenu_nil_map[OF q] deliver_nil_map[OF q] elapse_nil_map[OF q] by simp
qed

theorem CreateButtonMenu_on_created_client_witness:
  "CreateButtonMenu [''yes''] second ''onClick'' (started (createdClient\<lparr>commands := threeCommands\<rparr>)) =
     Inl ''assignment to entry in nil map'' \<and>
   CreateButtonMenu [] (5 * second) ''onClick'' (started (createdClient\<lparr>commands := threeCommands\<rparr>)) =
     Inr ((started (createdClient\<lparr>commands := threeCommands\<rparr>))
            \<lparr>timers := [\<lparr>due = 3 * second, timer_keys = [], timer_handler = ''onClick''\<rparr>]\<rparr>) \<and>
   queuedButtons (the_client (deliver (post (click ''yes'')) (started (createdClient\<lparr>commands := threeCommands\<rparr>)))) = None"
  using CreateButtonMenu_on_created_client[where options = someOptions and c = createdClient and registry = threeCommands
       and p = "started (createdClient\<lparr>commands := threeCommands\<rparr>)"
       and ids = "[''yes'']" and timeout = second and h = "''onClick''" and r = "post (click ''yes'')"]
     CreateButtonMenu_on_created_client[where options = someOptions and c = createdClient and registry = threeCommands
       and p = "started (createdClient\<lparr>commands := threeCommands\<rparr>)"
       and ids = "[]" and timeout = "5 * second" and h = "''onClick''"]
     CreateClient_someOptions
  by (simp add: started_def second_def)

section \<open>A wait that is delivered and then expires\<close>

text \<open>The function of the timer calls the handler whatever the map of waits holds.\<close>

lemma expire_invokes:
  "trace (expire tm p) = trace p @ [Invoke Queued (timer_handler tm) NilArg]"
  by (simp add: expire_def)

text \<open>
  C1, as the code has it. The claim: the handler of a wait is called exactly once. A wait
  armed for two keys with a timeout of two seconds, a click on one key, then two seconds:
  the handler is called with the click and, when the timer fires, again with \<^verbatim>\<open>nil\<close>.
\<close>

theorem handler_fires_on_delivery_and_on_expiry:
  "map_sum id (\<lambda>p. trace (elapse (2 * second) (deliver (post (click ''yes'')) p)))
     (CreateButtonMenu [''yes'', ''no''] (2 * second) ''onClick'' (started menuClient))
   = Inr [VerifyRequest, Decode, Invoke Queued ''onClick'' (ItxArg (click ''yes'')),
          WriteHeader 204, BodyClose, Invoke Queued ''onClick'' NilArg]"
  by (simp add: CreateButtonMenu_def started_def menuClient_def createdClient_def second_def
      deliver_def webhook_defs post_def click_def elapse_def expire_def Let_def)

section \<open>FetchUser and FetchMember drop the error of the decoding\<close>

text \<open>
  C10. When the request succeeds and \<^verbatim>\<open>json.Unmarshal\<close> fails, \<^verbatim>\<open>FetchUser\<close> and
  \<^verbatim>\<open>FetchMember\<close> return what the decoding left in the target (the zero value, for a
  body that is no JSON) and a nil error.
\<close>

theorem Fetch_ignores_Unmarshal_error:
  assumes "Rest_Request ''GET'' (''/users/'' @ String_of userId) = (raw, None)"
    and "json_Unmarshal raw zero = (res, Some e)"
    and "Rest_Request' ''GET''
           (''/guilds/'' @ String_of guildId @ ''/members/'' @ String_of memberId) = (raw', None)"
    and "json_Unmarshal' raw' zero' = (res', Some e')"
  shows "FetchUser Rest_Request json_Unmarshal zero userId = (res, None) \<and>
         FetchMember Rest_Request' json_Unmarshal' zero' guildId memberId = (res', None)"
  using assms by (simp add: FetchUser_def FetchMember_def)

theorem Fetch_ignores_Unmarshal_error_witness:
  "FetchUser (\<lambda>m r. (Some ''{'', None))
     (\<lambda>raw (u::string). (u, Some ''unexpected end of JSON input'')) [] 42 = ([], None) \<and>
   FetchMember (\<lambda>m r. (Some ''{'', None))
     (\<lambda>raw (u::string). (u, Some ''unexpected end of JSON input'')) [] 1 42 = ([], None)"
  using Fetch_ignores_Unmarshal_error
    [where Rest_Request = "\<lambda>m r. (Some ''{'', None)" and userId = 42 and raw = "Some ''{''"
       and json_Unmarshal = "\<lambda>raw (u::string). (u, Some ''unexpected end of JSON input'')"
       and zero = "[]" and res = "[]" and e = "''unexpected end of JSON input''"
       and Rest_Request' = "\<lambda>m r. (Some ''{'', None)" and guildId = 1 and memberId = 42
       and raw' = "Some ''{''"
       and json_Unmarshal' = "\<lambda>raw (u::string). (u, Some ''unexpected end of JSON input'')"
       and zero' = "[]" and res' = "[]" and e' = "''unexpected end of JSON input''"]
  by simp

text \<open>\<^verbatim>\<open>SendMessage\<close>, beside them, reports the same failure.\<close>

lemma SendMessage_reports_Unmarshal_error:
  "Rest_Request ''POST'' (''/channels/'' @ String_of channelId @ ''/messages'') = (raw, None) \<Longrightarrow>
   json_Unmarshal raw zero = (res, Some e) \<Longrightarrow>
   SendMessage Rest_Request json_Unmarshal zero channelId =
     (zero, Some ''failed to parse received data from discord'')"
  by (simp add: SendMessage_def)

section \<open>The handler with handler tables: tiers and writes\<close>

lemmas handleRequest_defs = handleRequest_def verifyRequest_def route_def decodeThen_def
  commandCase_def componentCase_def modalCase_def seekCommand_def available_def own_def
  acknowledge_def closing_def before_def autoCompleteBranch_def http_Error_def

text \<open>
  C3, as the code has it. The claim: once the wait matches, the generic handler is not
  called. A modal whose key has a wait armed, on a client with a generic modal handler:
  the acknowledgement is written, the event is sent to the wait, and the generic handler
  is called too, with the writer, and writes a second status.
\<close>

theorem modal_wait_and_fallback_both_invoked:
  "handleRequest waitingClient (post (submit ''form'')) =
     ([VerifyRequest, ReadAll, Decode, Decode,
       Header ''Content-Type'' ''application/json'',
       Write private_ACKNOWLEDGE_RESPONSE_RAW_BODY,
       Send ''modalWait'' (submit ''form''),
       Invoke Fallback ''anyModal'' (ItxArg (submit ''form'')), WriteHeader 204,
       BodyClose], Returned)"
  by (simp add: handleRequest_defs waitingClient_def emptyClient_def post_def submit_def)

text \<open>The case for components, beside it, returns after the wait.\<close>

lemma component_wait_only:
  "handleRequest waitingClient (post (click ''yes'')) =
     ([VerifyRequest, ReadAll, Decode, Decode,
       Header ''Content-Type'' ''application/json'',
       Write private_ACKNOWLEDGE_RESPONSE_RAW_BODY,
       Send ''componentWait'' (click ''yes''), BodyClose], Returned)"
  by (simp add: handleRequest_defs waitingClient_def emptyClient_def post_def click_def)

text \<open>In client.go a button whose key has a wait armed calls the handler of the wait
  and then the generic handler, when there is one.\<close>

lemma button_wait_and_generic_both_invoked:
  "fst (fst (handleDiscordWebhookRequests
       (menuClient\<lparr>queuedButtons := Some [''yes'' \<mapsto> \<lparr>CustomIds = [''yes''], Handler = ''onClick''\<rparr>],
                   interactionHandler := Some ''any''\<rparr>)
       (post (click ''yes'')))) =
     [VerifyRequest, Decode, Invoke Queued ''onClick'' (ItxArg (click ''yes'')),
      Invoke Generic ''any'' (ItxArg (click ''yes'')), WriteHeader 204, BodyClose]"
  by (simp add: webhook_defs menuClient_def createdClient_def post_def click_def)

text \<open>
  C4, as the code has it. The claim: no path writes the status twice, and the rejection
  of a command that is not available in a direct message writes once. On that path
  \<^verbatim>\<open>handleRequest\<close> calls \<^verbatim>\<open>WriteHeader(204)\<close> before the check and again inside it.
\<close>

theorem DM_rejection_writes_header_twice:
  "filter is_WriteHeader (fst (handleRequest waitingClient (post (invoke_in_DM ''ban'')))) =
     [WriteHeader 204, WriteHeader 204]"
  by (simp add: handleRequest_defs waitingClient_def emptyClient_def post_def invoke_in_DM_def
      findCommand_def lookup2_def banCommand_def)


section \<open>A command that is not available in a direct message\<close>

lemmas sent_defs = sent_status_def sent_body_def sent_def bodyAllowedForStatus_def

lemma findCommand_GuildID:
  "findCommand registry itx = (command, ctx, b) \<Longrightarrow> GuildID ctx = GuildID itx"
  by (auto simp: findCommand_def Let_def split: list.splits if_splits option.splits)

lemma handleDiscordWebhookRequests_DM:
  assumes "Method r = ''POST''" "signature_ok r (PublicKey c)" "decoded r = Some itx"
    "Type itx = APPLICATION_COMMAND_INTERACTION_TYPE"
    "findCommand (commands c) itx = (command, ctx, True)"
    "\<not> AvailableInDM command" "GuildID itx = 0"
  shows "fst (handleDiscordWebhookRequests c r) =
           ([VerifyRequest, Decode, WriteHeader 204, BodyClose], Returned)"
  using assms findCommand_GuildID[OF assms(5)]
  by (simp add: handleDiscordWebhookRequests_def verifyRequest_def dispatch_def closing_def
      commandBranch_def getCommand_def)

lemma handleRequest_DM:
  assumes "Method r = ''POST''" "signature_ok r (Client_PublicKey c)" "readable r"
    "envelope r = Some APPLICATION_COMMAND_INTERACTION_TYPE" "decoded r = Some itx"
    "findCommand (Client_commands c) itx = (command, ctx, True)"
    "\<not> AvailableInDM command" "GuildID itx = 0"
  shows "handleRequest c r =
           ([VerifyRequest, ReadAll, Decode, Decode, WriteHeader 204, WriteHeader 204,
             BodyClose], Returned)"
  using assms
  by (simp add: handleRequest_def verifyRequest_def route_def decodeThen_def closing_def
      commandCase_def seekCommand_def before_def)

text \<open>The hook before a command runs only behind the check: where it is called, the
  command was found, and it is available in a direct message or the event has a guild.\<close>

lemma PreCommand_behind_DM_check:
  assumes "list_ex (invoked_as PreCommand) (fst (commandBranch c itx))"
    and "getCommand c itx = (command, ctx, found)"
  shows "found \<and> (GuildID ctx \<noteq> 0 \<or> AvailableInDM command)"
  using assms
  by (auto simp: commandBranch_def terminateCommandInteraction_def runCommand_def before_def
      split: if_splits option.splits prod.splits)

lemma Middleware_behind_DM_check:
  assumes "list_ex (invoked_as Middleware) (fst (commandCase c itx))"
    and "seekCommand c itx = (command, ctx, found)"
  shows "found \<and> (GuildID itx \<noteq> 0 \<or> AvailableInDM command)"
  using assms
  by (auto simp: commandCase_def before_def split: if_splits option.splits prod.splits)

text \<open>
  C6. A verified command invocation that resolves to a command not available in a direct
  message, with no guild: in both handlers the response is 204 with an empty body, the
  handler returns, and no user function at all is called, neither the hook before the
  command nor the handler of the command.
\<close>

theorem DM_rejection_no_content_no_handler:
  assumes "Method r = ''POST''" and "signature_ok r (PublicKey c)"
    and "signature_ok r (Client_PublicKey c')" and "readable r"
    and "envelope r = Some APPLICATION_COMMAND_INTERACTION_TYPE" and "decoded r = Some itx"
    and "Type itx = APPLICATION_COMMAND_INTERACTION_TYPE"
    and "commands c = registry" and "Client_commands c' = registry"
    and "findCommand registry itx = (command, ctx, True)"
    and "\<not> AvailableInDM command" and "GuildID itx = 0"
  shows "sent_status (fst (fst (handleDiscordWebhookRequests c r))) = 204 \<and>
         sent_body (fst (fst (handleDiscordWebhookRequests c r))) = [] \<and>
         \<not> list_ex is_Invoke (fst (fst (handleDiscordWebhookRequests c r))) \<and>
         snd (fst (handleDiscordWebhookRequests c r)) = Returned \<and>
         sent_status (fst (handleRequest c' r)) = 204 \<and>
         sent_body (fst (handleRequest c' r)) = [] \<and>
         \<not> list_ex is_Invoke (fst (handleRequest c' r)) \<and>
         snd (handleRequest c' r) = Returned"
proof -
  have o: "fst (handleDiscordWebhookRequests c r) =
             ([VerifyRequest, Decode, WriteHeader 204, BodyClose], Returned)"
    using assms by (intro handleDiscordWebhookRequests_DM) auto
  have n: "handleRequest c' r =
             ([VerifyRequest, ReadAll, Decode, Decode, WriteHeader 204, WriteHeader 204,
               BodyClose], Returned)"
    using assms by (intro handleRequest_DM) auto
  show ?thesis
    by (simp add: o n sent_defs)
qed

theorem DM_rejection_no_content_no_handler_witness:
  "sent_status (fst (fst (handleDiscordWebhookRequests
       (createdClient\<lparr>commands := [''ban'' \<mapsto> [''-'' \<mapsto> banCommand]],
                      preCommandExecutionHandler :=
                        Some (''guard'', \<lambda>itx. Some (ResponseData (Some ''{}'')))\<rparr>)
       (post (invoke_in_DM ''ban''))))) = 204 \<and>
   \<not> list_ex is_Invoke (fst (fst (handleDiscordWebhookRequests
       (createdClient\<lparr>commands := [''ban'' \<mapsto> [''-'' \<mapsto> banCommand]],
                      preCommandExecutionHandler :=
                        Some (''guard'', \<lambda>itx. Some (ResponseData (Some ''{}'')))\<rparr>)
       (post (invoke_in_DM ''ban''))))) \<and>
   sent_status (fst (handleRequest waitingClient (post (invoke_in_DM ''ban'')))) = 204 \<and>
   \<not> list_ex is_Invoke (fst (handleRequest waitingClient (post (invoke_in_DM ''ban''))))"
  using DM_rejection_no_content_no_handler
    [where r = "post (invoke_in_DM ''ban'')"
       and c = "createdClient\<lparr>commands := [''ban'' \<mapsto> [''-'' \<mapsto> banCommand]],
                      preCommandExecutionHandler :=
                        Some (''guard'', \<lambda>itx. Some (ResponseData (Some ''{}'')))\<rparr>"
       and c' = waitingClient and itx = "invoke_in_DM ''ban''"
       and registry = "[''ban'' \<mapsto> [''-'' \<mapsto> banCommand]]"
       and command = banCommand and ctx = "invoke_in_DM ''ban''"]
  by (simp add: post_def invoke_in_DM_def waitingClient_def emptyClient_def createdClient_def
      findCommand_def lookup2_def banCommand_def)


section \<open>The status codes of the webhook handlers\<close>

lemmas reply_defs = reply_def writes_def sent_defs

lemma handleDiscordWebhookRequests_accepted:
  assumes "Method r = ''POST''" "signature_ok r (PublicKey c)" "decoded r = Some itx"
  shows "fst (handleDiscordWebhookRequests c r) = closing [VerifyRequest, Decode] (fst (dispatch c itx))"
  using assms by (simp add: handleDiscordWebhookRequests_def verifyRequest_def)

lemma handleRequest_accepted:
  assumes "Method r = ''POST''" "signature_ok r (Client_PublicKey c)" "readable r" "envelope r = Some t"
  shows "handleRequest c r = closing [VerifyRequest, ReadAll, Decode] (route c r t)"
  using assms by (simp add: handleRequest_def verifyRequest_def)

text \<open>A body that does not decode: the handler calls \<^verbatim>\<open>http.Error\<close> with 400 and
  panics, in each place where it decodes, and no response is sent.\<close>

lemma handleDiscordWebhookRequests_undecodable:
  "Method r = ''POST'' \<Longrightarrow> signature_ok r (PublicKey c) \<Longrightarrow> decoded r = None \<Longrightarrow>
   fst (handleDiscordWebhookRequests c r) =
     ([VerifyRequest, Decode] @ http_Error ''Bad Request'' 400,
      Panicked ''json: cannot decode the body'') \<and>
   reply (fst (handleDiscordWebhookRequests c r)) = None"
  by (simp add: handleDiscordWebhookRequests_def verifyRequest_def reply_def)

lemma handleRequest_unreadable:
  "Method r = ''POST'' \<Longrightarrow> signature_ok r (Client_PublicKey c) \<Longrightarrow> \<not> readable r \<Longrightarrow>
   handleRequest c r =
     ([VerifyRequest, ReadAll] @ http_Error ''bad request'' 400,
      Panicked ''cannot read the body'') \<and>
   reply (handleRequest c r) = None"
  by (simp add: handleRequest_def verifyRequest_def reply_def)

lemma handleRequest_no_envelope:
  "Method r = ''POST'' \<Longrightarrow> signature_ok r (Client_PublicKey c) \<Longrightarrow> readable r \<Longrightarrow>
   envelope r = None \<Longrightarrow>
   handleRequest c r =
     ([VerifyRequest, ReadAll, Decode] @ http_Error ''bad request'' 400,
      Panicked ''cannot decode the body'') \<and>
   reply (handleRequest c r) = None"
  by (simp add: handleRequest_def verifyRequest_def reply_def)

lemma handleRequest_undecodable:
  "Method r = ''POST'' \<Longrightarrow> signature_ok r (Client_PublicKey c) \<Longrightarrow> readable r \<Longrightarrow>
   envelope r = Some t \<Longrightarrow> t \<noteq> PING_INTERACTION_TYPE \<Longrightarrow> t \<noteq> OTHER_INTERACTION_TYPE \<Longrightarrow>
   decoded r = None \<Longrightarrow>
   handleRequest c r =
     ([VerifyRequest, ReadAll, Decode, Decode] @ http_Error ''bad request'' 400 @ [BodyClose],
      Panicked ''cannot decode the body'') \<and>
   reply (handleRequest c r) = None"
  by (cases t)
     (simp_all add: handleRequest_def verifyRequest_def route_def decodeThen_def closing_def
        reply_def)

text \<open>
  C7, as claimed, fails for an event that no handler takes: a click on a component with
  no handler registered, no wait armed and no generic handler is dispatched, the handler
  returns without a call on the writer, and the response is 200 with an empty body:
  neither 200 with a JSON body nor 204.
\<close>

theorem unhandled_component_200_empty:
  "snd (handleRequest emptyClient (post (click ''yes''))) = Returned \<and>
   sent_status (fst (handleRequest emptyClient (post (click ''yes'')))) = 200 \<and>
   sent_body (fst (handleRequest emptyClient (post (click ''yes'')))) = []"
  by (simp add: handleRequest_defs emptyClient_def post_def click_def sent_defs)

text \<open>The same in client.go, for a modal submission, with or without a generic
  handler: the generic handler is called and nothing is written.\<close>

lemma unhandled_modal_200_empty:
  "fst (handleDiscordWebhookRequests guardedClient (post (submit ''form''))) =
     ([VerifyRequest, Decode, Invoke Generic ''any'' (ItxArg (submit ''form'')), BodyClose],
      Returned) \<and>
   fst (handleDiscordWebhookRequests createdClient (post (submit ''form''))) =
     ([VerifyRequest, Decode, BodyClose], Returned) \<and>
   reply ([VerifyRequest, Decode, BodyClose], Returned) = Some (200, [])"
  by (simp add: webhook_defs guardedClient_def createdClient_def post_def submit_def reply_defs)

text \<open>
  C7, amended. Both handlers answer a request that is not a POST with 405 and do nothing
  else (no verification, no decoding), and a request whose signature fails with 401 after
  the verification and nothing else (no decoding). For a verified POST whose body decodes
  (\<open>r\<close>, decoding to \<open>itx\<close>; the registry resolves it to \<open>command\<close>, \<open>ctx\<close>,
  \<open>found\<close>), the response is:
  \<^item> 200 with a JSON body: for a ping, the fixed acknowledgement; for a command that is
    not found, the fixed payload; in client.go, for a command whose hook answers, the
    payload of the hook; for an autocomplete request with a handler and options, the
    choices; in \<^verbatim>\<open>handleRequest\<close>, for a component delivered to a wait, and for a
    modal delivered to a wait when no generic modal handler is set, the acknowledgement;
  \<^item> 204 with an empty body: for a command that is found, whether rejected in a direct
    message or run; in client.go for every button; for an autocomplete request with no
    command, no handler or no options;
  \<^item> no call on the writer at all, which is sent as 200 with an empty body: in client.go
    for a component that is no button, a modal and any other type, whether or not the
    generic handler is called; in \<^verbatim>\<open>handleRequest\<close> for a component or a modal that
    no table, wait or generic handler takes, and for any other type;
  \<^item> in \<^verbatim>\<open>handleRequest\<close>, where a permanent handler, or with no wait armed the generic
    handler, of a component or modal is called: what that handler writes.
  What is sent for a body that does not decode is not part of the statement.
\<close>

theorem webhook_status_codes:
  assumes "Method r1 \<noteq> ''POST''"
    and "Method r2 = ''POST''" and "\<not> signature_ok r2 (PublicKey c)"
    and "\<not> signature_ok r2 (Client_PublicKey c')"
    and "Method r = ''POST''" and "signature_ok r (PublicKey c)"
    and "signature_ok r (Client_PublicKey c')" and "readable r"
    and "envelope r = Some (Type itx)" and "decoded r = Some itx"
    and "getCommand c itx = (command, ctx, found)"
    and "seekCommand c' itx = (command', ctx', found')"
  shows
   "fst (handleDiscordWebhookRequests c r1) = (http_Error ''Method Not Allowed.'' 405, Returned) \<and>
    reply (fst (handleDiscordWebhookRequests c r1)) = Some (405, ''Method Not Allowed.'' @ [CHR 0x0A]) \<and>
    handleRequest c' r1 = (http_Error ''method not allowed'' 405, Returned) \<and>
    reply (handleRequest c' r1) = Some (405, ''method not allowed'' @ [CHR 0x0A]) \<and>
    fst (handleDiscordWebhookRequests c r2) = (VerifyRequest # http_Error ''Unauthorized'' 401, Returned) \<and>
    reply (fst (handleDiscordWebhookRequests c r2)) = Some (401, ''Unauthorized'' @ [CHR 0x0A]) \<and>
    handleRequest c' r2 = (VerifyRequest # http_Error ''unauthorized'' 401, Returned) \<and>
    reply (handleRequest c' r2) = Some (401, ''unauthorized'' @ [CHR 0x0A]) \<and>
    (Type itx = PING_INTERACTION_TYPE \<longrightarrow>
       reply (fst (handleDiscordWebhookRequests c r)) = Some (200, ''{\"type\":1}'') \<and>
       reply (handleRequest c' r) = Some (200, private_PING_RESPONSE_RAW_BODY)) \<and>
    (Type itx = APPLICATION_COMMAND_INTERACTION_TYPE \<and> \<not> found \<longrightarrow>
       reply (fst (handleDiscordWebhookRequests c r)) =
         Some (200, private_UNKNOWN_COMMAND_RESPONSE_RAW_BODY)) \<and>
    (Type itx = APPLICATION_COMMAND_INTERACTION_TYPE \<and> \<not> found' \<longrightarrow>
       reply (handleRequest c' r) = Some (200, private_UNKNOWN_COMMAND_RESPONSE_RAW_BODY)) \<and>
    (Type itx = APPLICATION_COMMAND_INTERACTION_TYPE \<and> found \<and>
     GuildID itx = 0 \<and> \<not> AvailableInDM command \<longrightarrow>
       reply (fst (handleDiscordWebhookRequests c r)) = Some (204, [])) \<and>
    (Type itx = APPLICATION_COMMAND_INTERACTION_TYPE \<and> found \<and>
     (GuildID itx \<noteq> 0 \<or> AvailableInDM command) \<and>
     preCommandExecutionHandler c = Some (g, f) \<and> f ctx = Some content \<and>
     marshalled content = Some bs \<longrightarrow>
       reply (fst (handleDiscordWebhookRequests c r)) = Some (200, bs)) \<and>
    (Type itx = APPLICATION_COMMAND_INTERACTION_TYPE \<and> found \<and>
     (GuildID itx \<noteq> 0 \<or> AvailableInDM command) \<and>
     (preCommandExecutionHandler c = None \<or>
      preCommandExecutionHandler c = Some (g, f) \<and> f ctx = None) \<and>
     SlashCommandHandler command = Some h \<longrightarrow>
       reply (fst (handleDiscordWebhookRequests c r)) = Some (204, [])) \<and>
    (Type itx = APPLICATION_COMMAND_INTERACTION_TYPE \<and> found' \<and>
     snd (handleRequest c' r) = Returned \<longrightarrow>
       reply (handleRequest c' r) = Some (204, [])) \<and>
    (Type itx = MESSAGE_COMPONENT_INTERACTION_TYPE \<and>
     ComponentType (Data itx) = COMPONENT_BUTTON \<longrightarrow>
       reply (fst (handleDiscordWebhookRequests c r)) = Some (204, [])) \<and>
    ((Type itx = MESSAGE_COMPONENT_INTERACTION_TYPE \<and>
        ComponentType (Data itx) = OTHER_COMPONENT) \<or>
     Type itx = MODAL_SUBMIT_INTERACTION_TYPE \<or> Type itx = OTHER_INTERACTION_TYPE \<longrightarrow>
       reply (fst (handleDiscordWebhookRequests c r)) = Some (200, []) \<and>
       writes (fst (fst (handleDiscordWebhookRequests c r))) = []) \<and>
    (Type itx = MESSAGE_COMPONENT_INTERACTION_TYPE \<and>
     available (components c') (CustomId (Data itx)) = None \<and>
     available (queuedComponents c') (CustomId (Data itx)) = Some ch \<longrightarrow>
       reply (handleRequest c' r) = Some (200, private_ACKNOWLEDGE_RESPONSE_RAW_BODY)) \<and>
    (Type itx = MESSAGE_COMPONENT_INTERACTION_TYPE \<and>
     available (components c') (CustomId (Data itx)) = None \<and>
     available (queuedComponents c') (CustomId (Data itx)) = None \<and>
     componentHandler c' = None \<longrightarrow>
       reply (handleRequest c' r) = Some (200, []) \<and> writes (fst (handleRequest c' r)) = []) \<and>
    (Type itx = MODAL_SUBMIT_INTERACTION_TYPE \<and>
     available (modals c') (CustomId (Data itx)) = None \<and>
     available (queuedModals c') (CustomId (Data itx)) = Some ch \<and> modalHandler c' = None \<longrightarrow>
       reply (handleRequest c' r) = Some (200, private_ACKNOWLEDGE_RESPONSE_RAW_BODY)) \<and>
    (Type itx = MODAL_SUBMIT_INTERACTION_TYPE \<and>
     available (modals c') (CustomId (Data itx)) = None \<and>
     available (queuedModals c') (CustomId (Data itx)) = None \<and> modalHandler c' = None \<longrightarrow>
       reply (handleRequest c' r) = Some (200, []) \<and> writes (fst (handleRequest c' r)) = []) \<and>
    (Type itx = OTHER_INTERACTION_TYPE \<longrightarrow>
       reply (handleRequest c' r) = Some (200, []) \<and> writes (fst (handleRequest c' r)) = []) \<and>
    (Type itx = APPLICATION_COMMAND_AUTO_COMPLETE_INTERACTION_TYPE \<and>
     (\<not> found \<or> AutoCompleteHandler command = None \<or> CommandOptions command = []) \<longrightarrow>
       reply (fst (handleDiscordWebhookRequests c r)) = Some (204, [])) \<and>
    (Type itx = APPLICATION_COMMAND_AUTO_COMPLETE_INTERACTION_TYPE \<and>
     (\<not> found' \<or> AutoCompleteHandler command' = None \<or> CommandOptions command' = []) \<longrightarrow>
       reply (handleRequest c' r) = Some (204, [])) \<and>
    (Type itx = APPLICATION_COMMAND_AUTO_COMPLETE_INTERACTION_TYPE \<and> found \<and>
     AutoCompleteHandler command = Some (a, choices) \<and> CommandOptions command \<noteq> [] \<and>
     choices ctx = Some bs \<longrightarrow>
       reply (fst (handleDiscordWebhookRequests c r)) = Some (200, bs)) \<and>
    (Type itx = APPLICATION_COMMAND_AUTO_COMPLETE_INTERACTION_TYPE \<and> found' \<and>
     AutoCompleteHandler command' = Some (a, choices) \<and> CommandOptions command' \<noteq> [] \<and>
     choices ctx' = Some bs \<longrightarrow>
       reply (handleRequest c' r) = Some (200, bs)) \<and>
    (Type itx = MESSAGE_COMPONENT_INTERACTION_TYPE \<and>
     available (components c') (CustomId (Data itx)) = Some fn \<longrightarrow>
       list_ex (invoked_as Permanent) (fst (handleRequest c' r)) \<and>
       reply (handleRequest c' r) = reply (snd fn itx, Returned)) \<and>
    (Type itx = MESSAGE_COMPONENT_INTERACTION_TYPE \<and>
     available (components c') (CustomId (Data itx)) = None \<and>
     available (queuedComponents c') (CustomId (Data itx)) = None \<and>
     componentHandler c' = Some fn \<longrightarrow>
       list_ex (invoked_as Fallback) (fst (handleRequest c' r)) \<and>
       reply (handleRequest c' r) = reply (snd fn itx, Returned)) \<and>
    (Type itx = MODAL_SUBMIT_INTERACTION_TYPE \<and>
     available (modals c') (CustomId (Data itx)) = Some fn \<longrightarrow>
       list_ex (invoked_as Permanent) (fst (handleRequest c' r)) \<and>
       reply (handleRequest c' r) = reply (snd fn itx, Returned)) \<and>
    (Type itx = MODAL_SUBMIT_INTERACTION_TYPE \<and>
     available (modals c') (CustomId (Data itx)) = None \<and>
     available (queuedModals c') (CustomId (Data itx)) = None \<and>
     modalHandler c' = Some fn \<longrightarrow>
       list_ex (invoked_as Fallback) (fst (handleRequest c' r)) \<and>
       reply (handleRequest c' r) = reply (snd fn itx, Returned))"
proof -
  note a = assms
  have gid: "GuildID ctx = GuildID itx"
    using a(11) by (auto simp: getCommand_def findCommand_def Let_def split: list.splits if_splits option.splits)
  have fc: "findCommand (commands c) itx = (command, ctx, found)"
    using a(11) by (simp add: getCommand_def)
  have fc': "findCommand (Client_commands c') itx = (command', ctx', found')"
    using a(12) by (simp add: seekCommand_def)
  have o: "fst (handleDiscordWebhookRequests c r) = closing [VerifyRequest, Decode] (fst (dispatch c itx))"
    using a(5,6,10) by (rule handleDiscordWebhookRequests_accepted)
  have n: "handleRequest c' r = closing [VerifyRequest, ReadAll, Decode] (route c' r (Type itx))"
    using a(5,7,8,9) by (rule handleRequest_accepted)
  show ?thesis
    apply (intro conjI impI)
    subgoal using a(1) by (simp add: handleDiscordWebhookRequests_def)
    subgoal using a(1) by (simp add: handleDiscordWebhookRequests_def http_Error_def reply_defs)
    subgoal using a(1) by (simp add: handleRequest_def)
    subgoal using a(1) by (simp add: handleRequest_def http_Error_def reply_defs)
    subgoal using a(2,3) by (simp add: handleDiscordWebhookRequests_def verifyRequest_def)
    subgoal using a(2,3) by (simp add: handleDiscordWebhookRequests_def verifyRequest_def http_Error_def reply_defs)
    subgoal using a(2,4) by (simp add: handleRequest_def verifyRequest_def)
    subgoal using a(2,4) by (simp add: handleRequest_def verifyRequest_def http_Error_def reply_defs)
    subgoal by (simp add: o closing_def dispatch_def reply_defs)
    subgoal by (simp add: n closing_def route_def reply_defs)
    subgoal using a(11) by (simp add: o closing_def dispatch_def commandBranch_def terminateCommandInteraction_def reply_defs)
    subgoal using a(10,12) by (simp add: n closing_def route_def decodeThen_def before_def commandCase_def reply_defs)
    subgoal using a(11) gid by (simp add: o closing_def dispatch_def commandBranch_def reply_defs)
    subgoal using a(11) gid by (auto simp: o closing_def dispatch_def commandBranch_def before_def reply_defs)
    subgoal using a(11) gid by (auto simp: o closing_def dispatch_def commandBranch_def before_def runCommand_def reply_defs)
    subgoal using a(10,12) by (auto simp: n closing_def route_def decodeThen_def before_def commandCase_def reply_defs split: if_splits option.splits prod.splits)
    subgoal by (simp add: o closing_def dispatch_def componentBranch_def unhandled_def reply_defs split: option.splits)
    subgoal by (auto simp: o closing_def dispatch_def componentBranch_def unhandled_def reply_defs split: option.splits)
    subgoal by (auto simp: o closing_def dispatch_def componentBranch_def unhandled_def reply_defs split: option.splits)
    subgoal using a(10) by (simp add: n closing_def route_def decodeThen_def before_def componentCase_def acknowledge_def reply_defs)
    subgoal using a(10) by (simp add: n closing_def route_def decodeThen_def before_def componentCase_def reply_defs)
    subgoal using a(10) by (simp add: n closing_def route_def decodeThen_def before_def componentCase_def reply_defs)
    subgoal using a(10) by (simp add: n closing_def route_def decodeThen_def before_def modalCase_def acknowledge_def reply_defs)
    subgoal using a(10) by (simp add: n closing_def route_def decodeThen_def before_def modalCase_def reply_defs)
    subgoal using a(10) by (simp add: n closing_def route_def decodeThen_def before_def modalCase_def reply_defs)
    subgoal by (simp add: n closing_def route_def reply_defs)
    subgoal by (simp add: n closing_def route_def reply_defs)
    subgoal using fc by (auto simp: o closing_def dispatch_def autoCompleteBranch_def reply_defs)
    subgoal using a(10) fc' by (auto simp: n closing_def route_def decodeThen_def before_def autoCompleteBranch_def reply_defs)
    subgoal using fc by (simp add: o closing_def dispatch_def autoCompleteBranch_def before_def reply_defs)
    subgoal using a(10) fc' by (simp add: n closing_def route_def decodeThen_def before_def autoCompleteBranch_def reply_defs)
    subgoal using a(10) by (simp add: n closing_def route_def decodeThen_def before_def componentCase_def own_def)
    subgoal using a(10) by (simp add: n closing_def route_def decodeThen_def before_def componentCase_def own_def reply_defs)
    subgoal using a(10) by (simp add: n closing_def route_def decodeThen_def before_def componentCase_def own_def)
    subgoal using a(10) by (simp add: n closing_def route_def decodeThen_def before_def componentCase_def own_def reply_defs)
    subgoal using a(10) by (simp add: n closing_def route_def decodeThen_def before_def modalCase_def own_def)
    subgoal using a(10) by (simp add: n closing_def route_def decodeThen_def before_def modalCase_def own_def reply_defs)
    subgoal using a(10) by (simp add: n closing_def route_def decodeThen_def before_def modalCase_def own_def)
    subgoal using a(10) by (simp add: n closing_def route_def decodeThen_def before_def modalCase_def own_def reply_defs)
    done
qed


text \<open>The inputs of the witness, evaluated.\<close>

lemmas input_defs = post_def invoke_def invoke_in_DM_def click_def submit_def
  guardedClient_def createdClient_def tablesClient_def emptyClient_def threeCommands_def
  banCommand_def pingCommand_def searchCommand_def zeroCommand_def
  getCommand_def seekCommand_def findCommand_def lookup2_def available_def

lemma post_Method: "Method (post itx) = ''POST''"
  and post_signature: "signature_ok (post itx) key"
  and post_readable: "readable (post itx)"
  and post_envelope: "envelope (post itx) = Some (Type itx)"
  and post_decoded: "decoded (post itx) = Some itx"
  by (simp_all add: post_def)

lemma evals:
  "Type (invoke t name) = t" "Name (Data (invoke t name)) = name" "GuildID (invoke t name) = 1"
  "Type (invoke_in_DM name) = APPLICATION_COMMAND_INTERACTION_TYPE"
  "GuildID (invoke_in_DM name) = 0"
  "Type (click key) = MESSAGE_COMPONENT_INTERACTION_TYPE"
  "ComponentType (Data (click key)) = COMPONENT_BUTTON" "CustomId (Data (click key)) = key"
  "Type (submit key) = MODAL_SUBMIT_INTERACTION_TYPE"
  "ComponentType (Data (submit key)) = OTHER_COMPONENT" "CustomId (Data (submit key)) = key"
  "AvailableInDM banCommand = False" "AutoCompleteHandler banCommand = None"
  "AvailableInDM pingCommand = True" "AvailableInDM searchCommand = True"
  "SlashCommandHandler searchCommand = Some ''onSearch''"
  "AutoCompleteHandler searchCommand = Some (''complete'', \<lambda>itx. Some ''{\"type\":8}'')"
  "CommandOptions searchCommand = [CommandOption OTHER_OPTION ''query'' []]"
  "preCommandExecutionHandler guardedClient =
     Some (''guard'', \<lambda>itx. if Name (Data itx) = ''ping''
                       then Some (ResponseData (Some ''{\"type\":4}'')) else None)"
  "available (components tablesClient) key = None"
  "available (modals tablesClient) key = None"
  "available (queuedComponents tablesClient) key =
     (if key = ''yes'' then Some ''componentWait'' else None)"
  "available (queuedModals tablesClient) key = (if key = ''form'' then Some ''modalWait'' else None)"
  "componentHandler tablesClient = None" "modalHandler tablesClient = None"
  by (simp_all add: input_defs)

theorem webhook_status_codes_witness:
  "reply (fst (handleDiscordWebhookRequests guardedClient
        ((post (click ''yes''))\<lparr>Method := ''GET''\<rparr>))) =
     Some (405, ''Method Not Allowed.'' @ [CHR 0x0A]) \<and>
   reply (handleRequest tablesClient ((post (click ''yes''))\<lparr>signature_ok := \<lambda>key. False\<rparr>)) =
     Some (401, ''unauthorized'' @ [CHR 0x0A]) \<and>
   reply (fst (handleDiscordWebhookRequests guardedClient
        (post (invoke PING_INTERACTION_TYPE [])))) = Some (200, ''{\"type\":1}'') \<and>
   reply (handleRequest tablesClient (post (invoke APPLICATION_COMMAND_INTERACTION_TYPE ''nope''))) =
     Some (200, private_UNKNOWN_COMMAND_RESPONSE_RAW_BODY) \<and>
   reply (fst (handleDiscordWebhookRequests guardedClient (post (invoke_in_DM ''ban'')))) =
     Some (204, []) \<and>
   reply (handleRequest tablesClient (post (invoke_in_DM ''ban''))) = Some (204, []) \<and>
   reply (fst (handleDiscordWebhookRequests guardedClient
        (post (invoke APPLICATION_COMMAND_INTERACTION_TYPE ''ping'')))) =
     Some (200, ''{\"type\":4}'') \<and>
   reply (fst (handleDiscordWebhookRequests guardedClient
        (post (invoke APPLICATION_COMMAND_INTERACTION_TYPE ''search'')))) = Some (204, []) \<and>
   reply (fst (handleDiscordWebhookRequests guardedClient (post (click ''yes'')))) =
     Some (204, []) \<and>
   reply (handleRequest tablesClient (post (click ''yes''))) =
     Some (200, private_ACKNOWLEDGE_RESPONSE_RAW_BODY) \<and>
   reply (fst (handleDiscordWebhookRequests guardedClient (post (submit ''form'')))) =
     Some (200, []) \<and>
   reply (handleRequest tablesClient (post (submit ''form''))) =
     Some (200, private_ACKNOWLEDGE_RESPONSE_RAW_BODY) \<and>
   reply (handleRequest tablesClient (post (click ''no''))) = Some (200, []) \<and>
   reply (handleRequest tablesClient (post (submit ''other''))) = Some (200, []) \<and>
   reply (handleRequest tablesClient (post (invoke OTHER_INTERACTION_TYPE []))) = Some (200, []) \<and>
   reply (handleRequest tablesClient
        (post (invoke APPLICATION_COMMAND_AUTO_COMPLETE_INTERACTION_TYPE ''ban''))) =
     Some (204, []) \<and>
   reply (fst (handleDiscordWebhookRequests guardedClient
        (post (invoke APPLICATION_COMMAND_AUTO_COMPLETE_INTERACTION_TYPE ''search'')))) =
     Some (200, ''{\"type\":8}'') \<and>
   reply (handleRequest tablesClient
        (post (invoke APPLICATION_COMMAND_AUTO_COMPLETE_INTERACTION_TYPE ''search''))) =
     Some (200, ''{\"type\":8}'') \<and>
   reply (handleRequest waitingClient (post (click ''no''))) = Some (204, [])"
proof -
  let ?get = "(post (click ''yes''))\<lparr>Method := ''GET''\<rparr>"
  let ?forged = "(post (click ''yes''))\<lparr>signature_ok := \<lambda>key. False\<rparr>"
  have p1: "Method ?get \<noteq> ''POST''" by (simp add: post_def)
  have p2: "Method ?forged = ''POST''" by (simp add: post_def)
  have p3: "\<not> signature_ok ?forged (PublicKey guardedClient)" by (simp add: post_def)
  have p4: "\<not> signature_ok ?forged (Client_PublicKey tablesClient)" by (simp add: post_def)
  have g1: "getCommand guardedClient (click ''yes'') = (zeroCommand, click ''yes'', False)"
    by (simp add: input_defs)
  have s1: "seekCommand tablesClient (click ''yes'') = (zeroCommand, click ''yes'', False)"
    by (simp add: input_defs)
  note t1 = webhook_status_codes
    [where g = "''guard''" and f = "\<lambda>itx. if Name (Data itx) = ''ping''
                       then Some (ResponseData (Some ''{\"type\":4}'')) else None"
       and content = "ResponseData (Some ''{\"type\":4}'')" and bs = "[]"
       and h = "''onSearch''" and ch = "''componentWait''" and a = "''complete''"
       and choices = "\<lambda>itx. Some ''{\"type\":8}''",
     OF p1 p2 p3 p4 post_Method post_signature post_signature post_readable
        post_envelope post_decoded g1 s1]
  have i1: "reply (fst (handleDiscordWebhookRequests guardedClient ?get)) = Some (405, ''Method Not Allowed.'' @ [CHR 0x0A]) \<and> reply (handleRequest tablesClient ?forged) = Some (401, ''unauthorized'' @ [CHR 0x0A]) \<and> reply (fst (handleDiscordWebhookRequests guardedClient (post (click ''yes'')))) = Some (204, []) \<and> reply (handleRequest tablesClient (post (click ''yes''))) = Some (200, private_ACKNOWLEDGE_RESPONSE_RAW_BODY)"
    using t1 by (simp add: evals http_Error_def reply_defs)
  have g2: "getCommand guardedClient (invoke PING_INTERACTION_TYPE []) = (zeroCommand, invoke PING_INTERACTION_TYPE [], False)"
    by (simp add: input_defs)
  have s2: "seekCommand tablesClient (invoke PING_INTERACTION_TYPE []) = (zeroCommand, invoke PING_INTERACTION_TYPE [], False)"
    by (simp add: input_defs)
  note t2 = webhook_status_codes
    [where g = "''guard''" and f = "\<lambda>itx. if Name (Data itx) = ''ping''
                       then Some (ResponseData (Some ''{\"type\":4}'')) else None"
       and content = "ResponseData (Some ''{\"type\":4}'')" and bs = "[]"
       and h = "''onSearch''" and ch = "[]" and a = "''complete''"
       and choices = "\<lambda>itx. Some ''{\"type\":8}''",
     OF p1 p2 p3 p4 post_Method post_signature post_signature post_readable
        post_envelope post_decoded g2 s2]
  have i2: "reply (fst (handleDiscordWebhookRequests guardedClient (post (invoke PING_INTERACTION_TYPE [])))) = Some (200, ''{\"type\":1}'')"
    using t2  by (simp add: evals)
  have g3: "getCommand guardedClient (invoke APPLICATION_COMMAND_INTERACTION_TYPE ''nope'') = (zeroCommand, invoke APPLICATION_COMMAND_INTERACTION_TYPE ''nope'', False)"
    by (simp add: input_defs)
  have s3: "seekCommand tablesClient (invoke APPLICATION_COMMAND_INTERACTION_TYPE ''nope'') = (zeroCommand, invoke APPLICATION_COMMAND_INTERACTION_TYPE ''nope'', False)"
    by (simp add: input_defs)
  note t3 = webhook_status_codes
    [where g = "''guard''" and f = "\<lambda>itx. if Name (Data itx) = ''ping''
                       then Some (ResponseData (Some ''{\"type\":4}'')) else None"
       and content = "ResponseData (Some ''{\"type\":4}'')" and bs = "[]"
       and h = "''onSearch''" and ch = "[]" and a = "''complete''"
       and choices = "\<lambda>itx. Some ''{\"type\":8}''",
     OF p1 p2 p3 p4 post_Method post_signature post_signature post_readable
        post_envelope post_decoded g3 s3]
  have i3: "reply (handleRequest tablesClient (post (invoke APPLICATION_COMMAND_INTERACTION_TYPE ''nope''))) = Some (200, private_UNKNOWN_COMMAND_RESPONSE_RAW_BODY)"
    using t3  by (simp add: evals)
  have dm: "snd (handleRequest tablesClient (post (invoke_in_DM ''ban''))) = Returned"
    by (simp add: handleRequest_defs input_defs)
  have g4: "getCommand guardedClient (invoke_in_DM ''ban'') = (banCommand, invoke_in_DM ''ban'', True)"
    by (simp add: input_defs)
  have s4: "seekCommand tablesClient (invoke_in_DM ''ban'') = (banCommand, invoke_in_DM ''ban'', True)"
    by (simp add: input_defs)
  note t4 = webhook_status_codes
    [where g = "''guard''" and f = "\<lambda>itx. if Name (Data itx) = ''ping''
                       then Some (ResponseData (Some ''{\"type\":4}'')) else None"
       and content = "ResponseData (Some ''{\"type\":4}'')" and bs = "[]"
       and h = "''onSearch''" and ch = "[]" and a = "''complete''"
       and choices = "\<lambda>itx. Some ''{\"type\":8}''",
     OF p1 p2 p3 p4 post_Method post_signature post_signature post_readable
        post_envelope post_decoded g4 s4]
  have i4: "reply (fst (handleDiscordWebhookRequests guardedClient (post (invoke_in_DM ''ban'')))) = Some (204, []) \<and> reply (handleRequest tablesClient (post (invoke_in_DM ''ban''))) = Some (204, [])"
    using t4 dm by (simp add: evals)
  have g5: "getCommand guardedClient (invoke APPLICATION_COMMAND_INTERACTION_TYPE ''ping'') = (pingCommand, invoke APPLICATION_COMMAND_INTERACTION_TYPE ''ping'', True)"
    by (simp add: input_defs)
  have s5: "seekCommand tablesClient (invoke APPLICATION_COMMAND_INTERACTION_TYPE ''ping'') = (pingCommand, invoke APPLICATION_COMMAND_INTERACTION_TYPE ''ping'', True)"
    by (simp add: input_defs)
  note t5 = webhook_status_codes
    [where g = "''guard''" and f = "\<lambda>itx. if Name (Data itx) = ''ping''
                       then Some (ResponseData (Some ''{\"type\":4}'')) else None"
       and content = "ResponseData (Some ''{\"type\":4}'')" and bs = "''{\"type\":4}''"
       and h = "''onSearch''" and ch = "[]" and a = "''complete''"
       and choices = "\<lambda>itx. Some ''{\"type\":8}''",
     OF p1 p2 p3 p4 post_Method post_signature post_signature post_readable
        post_envelope post_decoded g5 s5]
  have i5: "reply (fst (handleDiscordWebhookRequests guardedClient (post (invoke APPLICATION_COMMAND_INTERACTION_TYPE ''ping'')))) = Some (200, ''{\"type\":4}'')"
    using t5  by (simp add: evals)
  have g6: "getCommand guardedClient (invoke APPLICATION_COMMAND_INTERACTION_TYPE ''search'') = (searchCommand, invoke APPLICATION_COMMAND_INTERACTION_TYPE ''search'', True)"
    by (simp add: input_defs)
  have s6: "seekCommand tablesClient (invoke APPLICATION_COMMAND_INTERACTION_TYPE ''search'') = (searchCommand, invoke APPLICATION_COMMAND_INTERACTION_TYPE ''search'', True)"
    by (simp add: input_defs)
  note t6 = webhook_status_codes
    [where g = "''guard''" and f = "\<lambda>itx. if Name (Data itx) = ''ping''
                       then Some (ResponseData (Some ''{\"type\":4}'')) else None"
       and content = "ResponseData (Some ''{\"type\":4}'')" and bs = "[]"
       and h = "''onSearch''" and ch = "[]" and a = "''complete''"
       and choices = "\<lambda>itx. Some ''{\"type\":8}''",
     OF p1 p2 p3 p4 post_Method post_signature post_signature post_readable
        post_envelope post_decoded g6 s6]
  have i6: "reply (fst (handleDiscordWebhookRequests guardedClient (post (invoke APPLICATION_COMMAND_INTERACTION_TYPE ''search'')))) = Some (204, [])"
    using t6  by (simp add: evals)
  have g7: "getCommand guardedClient (submit ''form'') = (zeroCommand, submit ''form'', False)"
    by (simp add: input_defs)
  have s7: "seekCommand tablesClient (submit ''form'') = (zeroCommand, submit ''form'', False)"
    by (simp add: input_defs)
  note t7 = webhook_status_codes
    [where g = "''guard''" and f = "\<lambda>itx. if Name (Data itx) = ''ping''
                       then Some (ResponseData (Some ''{\"type\":4}'')) else None"
       and content = "ResponseData (Some ''{\"type\":4}'')" and bs = "[]"
       and h = "''onSearch''" and ch = "''modalWait''" and a = "''complete''"
       and choices = "\<lambda>itx. Some ''{\"type\":8}''",
     OF p1 p2 p3 p4 post_Method post_signature post_signature post_readable
        post_envelope post_decoded g7 s7]
  have i7: "reply (fst (handleDiscordWebhookRequests guardedClient (post (submit ''form'')))) = Some (200, []) \<and> reply (handleRequest tablesClient (post (submit ''form''))) = Some (200, private_ACKNOWLEDGE_RESPONSE_RAW_BODY)"
    using t7  by (simp add: evals)
  have g8: "getCommand guardedClient (click ''no'') = (zeroCommand, click ''no'', False)"
    by (simp add: input_defs)
  have s8: "seekCommand tablesClient (click ''no'') = (zeroCommand, click ''no'', False)"
    by (simp add: input_defs)
  note t8 = webhook_status_codes
    [where g = "''guard''" and f = "\<lambda>itx. if Name (Data itx) = ''ping''
                       then Some (ResponseData (Some ''{\"type\":4}'')) else None"
       and content = "ResponseData (Some ''{\"type\":4}'')" and bs = "[]"
       and h = "''onSearch''" and ch = "[]" and a = "''complete''"
       and choices = "\<lambda>itx. Some ''{\"type\":8}''",
     OF p1 p2 p3 p4 post_Method post_signature post_signature post_readable
        post_envelope post_decoded g8 s8]
  have i8: "reply (handleRequest tablesClient (post (click ''no''))) = Some (200, [])"
    using t8  by (simp add: evals)
  have g9: "getCommand guardedClient (submit ''other'') = (zeroCommand, submit ''other'', False)"
    by (simp add: input_defs)
  have s9: "seekCommand tablesClient (submit ''other'') = (zeroCommand, submit ''other'', False)"
    by (simp add: input_defs)
  note t9 = webhook_status_codes
    [where g = "''guard''" and f = "\<lambda>itx. if Name (Data itx) = ''ping''
                       then Some (ResponseData (Some ''{\"type\":4}'')) else None"
       and content = "ResponseData (Some ''{\"type\":4}'')" and bs = "[]"
       and h = "''onSearch''" and ch = "[]" and a = "''complete''"
       and choices = "\<lambda>itx. Some ''{\"type\":8}''",
     OF p1 p2 p3 p4 post_Method post_signature post_signature post_readable
        post_envelope post_decoded g9 s9]
  have i9: "reply (handleRequest tablesClient (post (submit ''other''))) = Some (200, [])"
    using t9  by (simp add: evals)
  have g10: "getCommand guardedClient (invoke OTHER_INTERACTION_TYPE []) = (zeroCommand, invoke OTHER_INTERACTION_TYPE [], False)"
    by (simp add: input_defs)
  have s10: "seekCommand tablesClient (invoke OTHER_INTERACTION_TYPE []) = (zeroCommand, invoke OTHER_INTERACTION_TYPE [], False)"
    by (simp add: input_defs)
  note t10 = webhook_status_codes
    [where g = "''guard''" and f = "\<lambda>itx. if Name (Data itx) = ''ping''
                       then Some (ResponseData (Some ''{\"type\":4}'')) else None"
       and content = "ResponseData (Some ''{\"type\":4}'')" and bs = "[]"
       and h = "''onSearch''" and ch = "[]" and a = "''complete''"
       and choices = "\<lambda>itx. Some ''{\"type\":8}''",
     OF p1 p2 p3 p4 post_Method post_signature post_signature post_readable
        post_envelope post_decoded g10 s10]
  have i10: "reply (handleRequest tablesClient (post (invoke OTHER_INTERACTION_TYPE []))) = Some (200, [])"
    using t10  by (simp add: evals)
  have g11: "getCommand guardedClient (invoke APPLICATION_COMMAND_AUTO_COMPLETE_INTERACTION_TYPE ''ban'') = (banCommand, invoke APPLICATION_COMMAND_AUTO_COMPLETE_INTERACTION_TYPE ''ban'', True)"
    by (simp add: input_defs)
  have s11: "seekCommand tablesClient (invoke APPLICATION_COMMAND_AUTO_COMPLETE_INTERACTION_TYPE ''ban'') = (banCommand, invoke APPLICATION_COMMAND_AUTO_COMPLETE_INTERACTION_TYPE ''ban'', True)"
    by (simp add: input_defs)
  note t11 = webhook_status_codes
    [where g = "''guard''" and f = "\<lambda>itx. if Name (Data itx) = ''ping''
                       then Some (ResponseData (Some ''{\"type\":4}'')) else None"
       and content = "ResponseData (Some ''{\"type\":4}'')" and bs = "[]"
       and h = "''onSearch''" and ch = "[]" and a = "''complete''"
       and choices = "\<lambda>itx. Some ''{\"type\":8}''",
     OF p1 p2 p3 p4 post_Method post_signature post_signature post_readable
        post_envelope post_decoded g11 s11]
  have i11: "reply (handleRequest tablesClient (post (invoke APPLICATION_COMMAND_AUTO_COMPLETE_INTERACTION_TYPE ''ban''))) = Some (204, [])"
    using t11  by (simp add: evals)
  have g12: "getCommand guardedClient (invoke APPLICATION_COMMAND_AUTO_COMPLETE_INTERACTION_TYPE ''search'') = (searchCommand, invoke APPLICATION_COMMAND_AUTO_COMPLETE_INTERACTION_TYPE ''search'', True)"
    by (simp add: input_defs)
  have s12: "seekCommand tablesClient (invoke APPLICATION_COMMAND_AUTO_COMPLETE_INTERACTION_TYPE ''search'') = (searchCommand, invoke APPLICATION_COMMAND_AUTO_COMPLETE_INTERACTION_TYPE ''search'', True)"
    by (simp add: input_defs)
  note t12 = webhook_status_codes
    [where g = "''guard''" and f = "\<lambda>itx. if Name (Data itx) = ''ping''
                       then Some (ResponseData (Some ''{\"type\":4}'')) else None"
       and content = "ResponseData (Some ''{\"type\":4}'')" and bs = "''{\"type\":8}''"
       and h = "''onSearch''" and ch = "[]" and a = "''complete''"
       and choices = "\<lambda>itx. Some ''{\"type\":8}''",
     OF p1 p2 p3 p4 post_Method post_signature post_signature post_readable
        post_envelope post_decoded g12 s12]
  have i12: "reply (fst (handleDiscordWebhookRequests guardedClient (post (invoke APPLICATION_COMMAND_AUTO_COMPLETE_INTERACTION_TYPE ''search'')))) = Some (200, ''{\"type\":8}'') \<and> reply (handleRequest tablesClient (post (invoke APPLICATION_COMMAND_AUTO_COMPLETE_INTERACTION_TYPE ''search''))) = Some (200, ''{\"type\":8}'')"
    using t12  by (simp add: evals)
  have p4': "\<not> signature_ok ?forged (Client_PublicKey waitingClient)" by (simp add: post_def)
  have g13: "getCommand guardedClient (click ''no'') = (zeroCommand, click ''no'', False)"
    by (simp add: input_defs)
  have s13: "seekCommand waitingClient (click ''no'') = (zeroCommand, click ''no'', False)"
    by (simp add: input_defs waitingClient_def)
  note t13 = webhook_status_codes
    [where fn = "(''anyComponent'', \<lambda>itx. [WriteHeader 204])",
     OF p1 p2 p3 p4' post_Method post_signature post_signature post_readable
        post_envelope post_decoded g13 s13]
  have i13: "reply (handleRequest waitingClient (post (click ''no''))) = Some (204, [])"
    using t13 by (simp add: evals waitingClient_def emptyClient_def available_def reply_defs)
  show ?thesis
    using i1 i2 i3 i4 i5 i6 i7 i8 i9 i10 i11 i12 i13 by simp
qed


end
